theory Spec2Isabelle
  imports Complex_Main "HOL-Library.Sublist"
begin

section \<open>Python values and library functions used by the agent\<close>

text \<open>
  The agent is one Python script, \<^verbatim>\<open>hetrixtools_agent.py\<close>. Its exceptions are values
  of \<open>py_error\<close>; a computation that may raise returns \<open>py_error + 'a\<close>, with \<open>Inl\<close> the
  exception that ends the script. The script catches exceptions only inside
  \<^verbatim>\<open>run_command\<close>, \<^verbatim>\<open>kill_lingering_processes\<close> and around the final HTTP post.

  Idealisations, stated once: a Python \<^verbatim>\<open>str\<close> is a list of 8-bit characters (ASCII
  text); a Python \<^verbatim>\<open>float\<close> is an exact rational number, so binary64 rounding, infinities
  and NaN are not modelled; \<^verbatim>\<open>int\<close> is unbounded, as in Python.
\<close>

datatype py_error =
  IndexError | ValueError | KeyError | ZeroDivisionError | NameError | OSError
  | SubprocessError

fun pbind :: "py_error + 'a \<Rightarrow> ('a \<Rightarrow> py_error + 'b) \<Rightarrow> py_error + 'b" where
  "pbind (Inl e) f = Inl e"
| "pbind (Inr x) f = f x"

definition newline :: char where
  "newline = CHR 0x0A"

text \<open>\<^verbatim>\<open>str.isspace\<close> on the ASCII range: tab, LF, VT, FF, CR, FS, GS, RS, US and space.\<close>

definition py_isspace :: "char \<Rightarrow> bool" where
  "py_isspace c = (c \<in> set [CHR 0x09, CHR 0x0A, CHR 0x0B, CHR 0x0C, CHR 0x0D,
                             CHR 0x1C, CHR 0x1D, CHR 0x1E, CHR 0x1F, CHR 0x20])"

text \<open>\<^verbatim>\<open>s.strip()\<close>\<close>

definition py_strip :: "string \<Rightarrow> string" where
  "py_strip s = rev (dropWhile py_isspace (rev (dropWhile py_isspace s)))"

text \<open>\<^verbatim>\<open>s.split()\<close>: the maximal runs of non-whitespace characters.\<close>

fun split_ws :: "string \<Rightarrow> string \<Rightarrow> string list" where
  "split_ws w [] = (if w = [] then [] else [w])"
| "split_ws w (c # cs) =
     (if py_isspace c then (if w = [] then split_ws [] cs else w # split_ws [] cs)
      else split_ws (w @ [c]) cs)"

definition py_split :: "string \<Rightarrow> string list" where
  "py_split s = split_ws [] s"

text \<open>\<^verbatim>\<open>s.split(sep)\<close> for a separator of one character: empty pieces are kept.\<close>

fun split_on :: "char \<Rightarrow> string \<Rightarrow> string \<Rightarrow> string list" where
  "split_on sep w [] = [w]"
| "split_on sep w (c # cs) =
     (if c = sep then w # split_on sep [] cs else split_on sep (w @ [c]) cs)"

definition py_split_on :: "char \<Rightarrow> string \<Rightarrow> string list" where
  "py_split_on sep s = split_on sep [] s"

text \<open>\<^verbatim>\<open>needle in s\<close> on strings.\<close>

fun py_in :: "string \<Rightarrow> string \<Rightarrow> bool" where
  "py_in needle [] = (needle = [])"
| "py_in needle (c # cs) = (prefix needle (c # cs) \<or> py_in needle cs)"

text \<open>
  \<^verbatim>\<open>s.count(sub)\<close>: the number of non-overlapping occurrences, scanning from the left.
  For the empty \<open>sub\<close> Python answers \<open>len(s) + 1\<close>.
\<close>

function py_count :: "string \<Rightarrow> string \<Rightarrow> nat" where
  "py_count sub s =
     (if sub = [] then Suc (length s)
      else if s = [] then 0
      else if prefix sub s then Suc (py_count sub (drop (length sub) s))
      else py_count sub (tl s))"
  by pat_completeness auto
termination
  by (relation "measure (\<lambda>(sub, s). length s)") (auto simp: neq_Nil_conv)

text \<open>\<^verbatim>\<open>xs[i]\<close> for a constant index \<open>i \<ge> 0\<close>.\<close>

definition py_index :: "'a list \<Rightarrow> nat \<Rightarrow> py_error + 'a" where
  "py_index xs i = (if i < length xs then Inr (xs ! i) else Inl IndexError)"

text \<open>\<^verbatim>\<open>d[k]\<close> on a dictionary.\<close>

definition py_getitem :: "('k \<rightharpoonup> 'v) \<Rightarrow> 'k \<Rightarrow> py_error + 'v" where
  "py_getitem d k = (case d k of None \<Rightarrow> Inl KeyError | Some v \<Rightarrow> Inr v)"

text \<open>
  \<^verbatim>\<open>int(s)\<close> on a string: surrounding whitespace is stripped, then an optional sign and
  decimal digits, where single underscores may stand between digits. Anything else is
  a \<open>ValueError\<close>. (Python's limit on the number of digits is not modelled.) The
  whitespace \<^verbatim>\<open>int\<close> accepts around the digits of an ASCII string is tab, LF, VT, FF, CR
  and space; unlike \<^verbatim>\<open>str.strip\<close> it does not accept the separators FS, GS, RS and US.
\<close>

definition is_digit :: "char \<Rightarrow> bool" where
  "is_digit c = (48 \<le> (of_char c :: nat) \<and> (of_char c :: nat) \<le> 57)"

definition digit_val :: "char \<Rightarrow> nat" where
  "digit_val c = of_char c - 48"

fun int_body :: "bool \<Rightarrow> nat \<Rightarrow> string \<Rightarrow> nat option" where
  "int_body prev acc [] = (if prev then Some acc else None)"
| "int_body prev acc (c # cs) =
     (if is_digit c then int_body True (acc * 10 + digit_val c) cs
      else if c = CHR ''_'' \<and> prev then int_body False acc cs
      else None)"

definition int_isspace :: "char \<Rightarrow> bool" where
  "int_isspace c = (c \<in> set [CHR 0x09, CHR 0x0A, CHR 0x0B, CHR 0x0C, CHR 0x0D, CHR 0x20])"

definition py_int :: "string \<Rightarrow> py_error + int" where
  "py_int s =
     (case rev (dropWhile int_isspace (rev (dropWhile int_isspace s))) of
        [] \<Rightarrow> Inl ValueError
      | c # cs \<Rightarrow>
          if c = CHR ''-'' then
            (case int_body False 0 cs of None \<Rightarrow> Inl ValueError | Some n \<Rightarrow> Inr (- int n))
          else if c = CHR ''+'' then
            (case int_body False 0 cs of None \<Rightarrow> Inl ValueError | Some n \<Rightarrow> Inr (int n))
          else
            (case int_body False 0 (c # cs) of
               None \<Rightarrow> Inl ValueError | Some n \<Rightarrow> Inr (int n)))"

text \<open>\<^verbatim>\<open>a / b\<close>, true division; the result is a float.\<close>

definition py_truediv :: "rat \<Rightarrow> rat \<Rightarrow> py_error + rat" where
  "py_truediv a b = (if b = 0 then Inl ZeroDivisionError else Inr (a / b))"

text \<open>\<^verbatim>\<open>a // b\<close> on integers: the floor of the quotient.\<close>

definition py_floordiv :: "int \<Rightarrow> int \<Rightarrow> py_error + int" where
  "py_floordiv a b = (if b = 0 then Inl ZeroDivisionError else Inr (a div b))"

text \<open>\<^verbatim>\<open>int(x)\<close> on a float: truncation toward zero.\<close>

definition py_trunc :: "rat \<Rightarrow> int" where
  "py_trunc x = (if x < 0 then - \<lfloor>- x\<rfloor> else \<lfloor>x\<rfloor>)"

text \<open>\<^verbatim>\<open>str(n)\<close> on an integer, as an f-string prints it.\<close>

fun nat_digits :: "nat \<Rightarrow> string" where
  "nat_digits n =
     (if n < 10 then [char_of (48 + n)]
      else nat_digits (n div 10) @ [char_of (48 + n mod 10)])"

definition py_str :: "int \<Rightarrow> string" where
  "py_str i = (if i < 0 then CHR ''-'' # nat_digits (nat (- i)) else nat_digits (nat i))"

section \<open>Settings and helper functions of the script\<close>

text \<open>
  The settings block of the script (lines 47 to 87). The script ships with the values of
  \<open>default_config\<close>; its comments invite the user to fill in \<^verbatim>\<open>NETWORK_INTERFACES\<close>,
  \<^verbatim>\<open>CHECK_SERVICES\<close> and \<^verbatim>\<open>CONNECTION_PORTS\<close>.
\<close>

record config =
  COLLECT_EVERY_X_SECONDS :: int
  RUNTIME :: int
  NETWORK_INTERFACES :: string
  CHECK_SERVICES :: string
  CONNECTION_PORTS :: string

definition default_config :: config where
  "default_config =
     \<lparr> COLLECT_EVERY_X_SECONDS = 3, RUNTIME = 60, NETWORK_INTERFACES = [],
       CHECK_SERVICES = [], CONNECTION_PORTS = [] \<rparr>"

text \<open>
  \<^verbatim>\<open>run_command\<close> (lines 93 to 99). Its argument here is what \<^verbatim>\<open>subprocess.run\<close> did:
  \<open>None\<close> when it raised (a timeout, for one), \<open>Some out\<close> when it returned with the
  captured standard output \<open>out\<close>. The exit status is never looked at.
\<close>

definition run_command :: "string option \<Rightarrow> string" where
  "run_command r = (case r of None \<Rightarrow> [] | Some out \<Rightarrow> py_strip out)"

text \<open>\<^verbatim>\<open>open(path).read()\<close>: \<open>None\<close> when the file cannot be opened or read.\<close>

definition read_file :: "string option \<Rightarrow> py_error + string" where
  "read_file r = (case r of None \<Rightarrow> Inl OSError | Some s \<Rightarrow> Inr s)"

text \<open>Line 152: \<^verbatim>\<open>run_times = RUNTIME // COLLECT_EVERY_X_SECONDS\<close>.\<close>

definition run_times :: "config \<Rightarrow> py_error + int" where
  "run_times cfg = py_floordiv (RUNTIME cfg) (COLLECT_EVERY_X_SECONDS cfg)"

text \<open>
  Lines 157 and 277: \<^verbatim>\<open>int(time.strftime('%M').lstrip('0') or 0)\<close>. The argument is the
  text \<^verbatim>\<open>strftime\<close> returned.
\<close>

definition minute_now :: "string \<Rightarrow> py_error + int" where
  "minute_now s =
     (let t = dropWhile (\<lambda>c. c = CHR ''0'') s in if t = [] then Inr 0 else py_int t)"

text \<open>What \<^verbatim>\<open>time.strftime('%M')\<close> returns in minute \<open>m\<close> of the hour: two digits.\<close>

definition strftime_M :: "nat \<Rightarrow> string" where
  "strftime_M m = [char_of (48 + m div 10), char_of (48 + m mod 10)]"

section \<open>The sampling window\<close>

text \<open>
  The script's global accumulators (lines 155 to 224), passed through the loop as one
  record. \<open>X\<close> is the loop variable of line 226: \<open>None\<close> while Python has not bound it.
\<close>

record window =
  start_time :: rat
  t_time_diff :: rat
  a_rx :: "string \<rightharpoonup> int"
  a_tx :: "string \<rightharpoonup> int"
  t_rx :: "string \<rightharpoonup> int"
  t_tx :: "string \<rightharpoonup> int"
  connections :: "string \<rightharpoonup> int"
  iops_read :: "string \<rightharpoonup> int"
  iops_write :: "string \<rightharpoonup> int"
  t_cpu :: int
  t_iow :: int
  t_ram :: rat
  X :: "nat option"

text \<open>
  What the operating system answers before the loop: the two clock reads of lines 155
  and 157, whether removing the hourly log succeeds (lines 160 to 163), and the outputs
  of the \<^verbatim>\<open>ip\<close> pipeline, \<^verbatim>\<open>/proc/net/dev\<close>, the \<^verbatim>\<open>netstat\<close> pipeline and
  \<^verbatim>\<open>/proc/diskstats\<close>.
\<close>

record init_env =
  time0 :: rat
  minute0 :: string
  log_remove_ok :: bool
  ip_out :: "string option"
  net_dev0 :: "string option"
  netstat0 :: "string option"
  diskstats0 :: "string option"

text \<open>
  What it answers during one tick: the \<^verbatim>\<open>vmstat\<close> pipeline, the \<^verbatim>\<open>MemTotal\<close> pipeline,
  \<^verbatim>\<open>/proc/net/dev\<close>, the clock reads of lines 247 and 250, the \<^verbatim>\<open>netstat\<close> pipeline
  and \<^verbatim>\<open>strftime('%M')\<close> of line 277.
\<close>

record tick_env =
  vmstat_out :: "string option"
  meminfo_out :: "string option"
  net_dev :: "string option"
  end_time :: rat
  restart_time :: rat
  netstat_out :: "string option"
  minute :: string

text \<open>And after the loop: \<^verbatim>\<open>/proc/diskstats\<close> again and the two swap pipelines.\<close>

record final_env =
  diskstats1 :: "string option"
  swap_size_out :: "string option"
  swap_free_out :: "string option"

fun for_each :: "('a \<Rightarrow> 's \<Rightarrow> py_error + 's) \<Rightarrow> 'a list \<Rightarrow> 's \<Rightarrow> py_error + 's" where
  "for_each f [] s = Inr s"
| "for_each f (x # xs) s = pbind (f x s) (for_each f xs)"

text \<open>The inner \<^verbatim>\<open>for line in ...: if needle in line: ... break\<close>: the first such line.\<close>

fun find_line :: "string \<Rightarrow> string list \<Rightarrow> string option" where
  "find_line needle [] = None"
| "find_line needle (l # ls) = (if py_in needle l then Some l else find_line needle ls)"

text \<open>Lines 166 to 174.\<close>

definition network_interfaces_array :: "config \<Rightarrow> init_env \<Rightarrow> string list" where
  "network_interfaces_array cfg ie =
     (if NETWORK_INTERFACES cfg \<noteq> [] then py_split_on (CHR '','') (NETWORK_INTERFACES cfg)
      else let ip_output = run_command (ip_out ie)
           in if ip_output \<noteq> [] then py_split_on newline ip_output else [])"

text \<open>Line 197; the name is bound only when \<^verbatim>\<open>CONNECTION_PORTS\<close> is not empty.\<close>

definition connection_ports_array :: "config \<Rightarrow> string list" where
  "connection_ports_array cfg = py_split_on (CHR '','') (CONNECTION_PORTS cfg)"

text \<open>Lines 184 to 192, for one interface.\<close>

definition nic_init :: "string \<Rightarrow> string \<Rightarrow> window \<Rightarrow> py_error + window" where
  "nic_init nd nic w =
     (case find_line (nic @ '':'') (py_split_on newline nd) of
        None \<Rightarrow> Inr w
      | Some line \<Rightarrow>
          let parts = py_split line in
          pbind (py_index parts 1) (\<lambda>p1. pbind (py_int p1) (\<lambda>rx0.
          pbind (py_index parts 9) (\<lambda>p9. pbind (py_int p9) (\<lambda>tx0.
          Inr (w\<lparr> a_rx := (a_rx w)(nic \<mapsto> rx0), a_tx := (a_tx w)(nic \<mapsto> tx0),
                  t_rx := (t_rx w)(nic \<mapsto> 0), t_tx := (t_tx w)(nic \<mapsto> 0) \<rparr>))))))"

text \<open>Lines 200, 201, 273 and 274: the count for one port in a \<^verbatim>\<open>netstat\<close> output.\<close>

definition port_count :: "string \<Rightarrow> string \<Rightarrow> int" where
  "port_count netstat_output c_port =
     int (py_count (CHR '':'' # c_port @ [newline]) netstat_output)"

definition port_init :: "string \<Rightarrow> string \<Rightarrow> window \<Rightarrow> py_error + window" where
  "port_init netstat_output c_port w =
     Inr (w\<lparr> connections := (connections w)(c_port \<mapsto> port_count netstat_output c_port) \<rparr>)"

text \<open>Lines 205 to 208.\<close>

definition v_disks :: "(string \<times> string) list" where
  "v_disks = [(''/'', ''sda1''), (''/volume1'', ''sda3'')]"

text \<open>Lines 213 to 219, for one entry of \<open>v_disks\<close>.\<close>

definition iops_init :: "string \<Rightarrow> string \<times> string \<Rightarrow> window \<Rightarrow> py_error + window" where
  "iops_init ds md w =
     (case find_line (snd md) (py_split_on newline ds) of
        None \<Rightarrow> Inr w
      | Some line \<Rightarrow>
          let parts = py_split line in
          pbind (py_index parts 5) (\<lambda>p5. pbind (py_int p5) (\<lambda>r0.
          pbind (py_index parts 9) (\<lambda>p9. pbind (py_int p9) (\<lambda>w0.
          Inr (w\<lparr> iops_read := (iops_read w)(fst md \<mapsto> r0),
                  iops_write := (iops_write w)(fst md \<mapsto> w0) \<rparr>))))))"

definition empty_window :: "rat \<Rightarrow> window" where
  "empty_window t =
     \<lparr> start_time = t, t_time_diff = 0, a_rx = Map.empty, a_tx = Map.empty,
       t_rx = Map.empty, t_tx = Map.empty, connections = Map.empty,
       iops_read = Map.empty, iops_write = Map.empty,
       t_cpu = 0, t_iow = 0, t_ram = 0, X = None \<rparr>"

text \<open>Lines 155 to 224: everything before the loop, given the interface list.\<close>

definition open_window :: "config \<Rightarrow> init_env \<Rightarrow> py_error + window" where
  "open_window cfg ie =
     pbind (read_file (net_dev0 ie)) (\<lambda>nd.
     pbind (for_each (nic_init nd) (network_interfaces_array cfg ie) (empty_window (time0 ie)))
       (\<lambda>w1.
     pbind (if CONNECTION_PORTS cfg \<noteq> []
            then for_each (port_init (run_command (netstat0 ie))) (connection_ports_array cfg) w1
            else Inr w1) (\<lambda>w2.
     pbind (read_file (diskstats0 ie)) (\<lambda>ds.
     for_each (iops_init ds) v_disks w2))))"

subsection \<open>One tick\<close>

text \<open>Lines 232, 236 and 240 to 242, on the split \<^verbatim>\<open>vmstat\<close> line.\<close>

definition cpu_sample :: "string list \<Rightarrow> py_error + int" where
  "cpu_sample vmstat_parts =
     pbind (py_index vmstat_parts 14) (\<lambda>p. pbind (py_int p) (\<lambda>idle. Inr (100 - idle)))"

definition iow_sample :: "string list \<Rightarrow> py_error + int" where
  "iow_sample vmstat_parts = pbind (py_index vmstat_parts 15) py_int"

definition ram_sample :: "string list \<Rightarrow> string \<Rightarrow> py_error + rat" where
  "ram_sample vmstat_parts meminfo =
     pbind (py_index vmstat_parts 3) (\<lambda>p3. pbind (py_int p3) (\<lambda>v3.
     pbind (py_index vmstat_parts 4) (\<lambda>p4. pbind (py_int p4) (\<lambda>v4.
     pbind (py_index vmstat_parts 5) (\<lambda>p5. pbind (py_int p5) (\<lambda>v5.
     let a_ram = v3 + v4 + v5 in
     pbind (py_int meminfo) (\<lambda>mem_total.
     pbind (py_truediv (of_int (a_ram * 100)) (of_int mem_total)) (\<lambda>q.
     Inr (100 - q)))))))))"

text \<open>Lines 255 to 267, for one interface: \<open>nd\<close> is the text of \<^verbatim>\<open>/proc/net/dev\<close>.\<close>

definition nic_update :: "string \<Rightarrow> rat \<Rightarrow> string \<Rightarrow> window \<Rightarrow> py_error + window" where
  "nic_update nd time_diff nic w =
     (case find_line (nic @ '':'') (py_split_on newline nd) of
        None \<Rightarrow> Inr w
      | Some line \<Rightarrow>
          let parts = py_split line in
          pbind (py_index parts 1) (\<lambda>p1. pbind (py_int p1) (\<lambda>cur_rx.
          pbind (py_getitem (a_rx w) nic) (\<lambda>prev_rx.
          pbind (py_truediv (of_int (cur_rx - prev_rx)) time_diff) (\<lambda>rx_f.
          let rx = py_trunc rx_f in
          pbind (py_getitem (t_rx w) nic) (\<lambda>sum_rx.
          pbind (py_index parts 9) (\<lambda>p9. pbind (py_int p9) (\<lambda>cur_tx.
          pbind (py_getitem (a_tx w) nic) (\<lambda>prev_tx.
          pbind (py_truediv (of_int (cur_tx - prev_tx)) time_diff) (\<lambda>tx_f.
          let tx = py_trunc tx_f in
          pbind (py_getitem (t_tx w) nic) (\<lambda>sum_tx.
          Inr (w\<lparr> a_rx := (a_rx w)(nic \<mapsto> cur_rx), t_rx := (t_rx w)(nic \<mapsto> sum_rx + rx),
                  a_tx := (a_tx w)(nic \<mapsto> cur_tx), t_tx := (t_tx w)(nic \<mapsto> sum_tx + tx) \<rparr>
              ))))))))))))"

text \<open>Lines 272 to 274, for one port.\<close>

definition port_update :: "string \<Rightarrow> string \<Rightarrow> window \<Rightarrow> py_error + window" where
  "port_update netstat_output c_port w =
     pbind (py_getitem (connections w) c_port) (\<lambda>c.
     Inr (w\<lparr> connections := (connections w)(c_port \<mapsto> c + port_count netstat_output c_port) \<rparr>))"

text \<open>
  Lines 227 to 274: the body of the loop up to the minute check. An exception anywhere
  ends the script, so the order of the accumulator updates among themselves does not show.
\<close>

definition tick :: "config \<Rightarrow> string list \<Rightarrow> tick_env \<Rightarrow> window \<Rightarrow> py_error + window" where
  "tick cfg nics te w =
     (let vmstat_parts = py_split (run_command (vmstat_out te)) in
      pbind (cpu_sample vmstat_parts) (\<lambda>cpu.
      pbind (iow_sample vmstat_parts) (\<lambda>iow.
      pbind (ram_sample vmstat_parts (run_command (meminfo_out te))) (\<lambda>ram.
      pbind (read_file (net_dev te)) (\<lambda>nd.
      let time_diff = end_time te - start_time w;
          w1 = w\<lparr> t_cpu := t_cpu w + cpu, t_iow := t_iow w + iow, t_ram := t_ram w + ram,
                  t_time_diff := t_time_diff w + time_diff, start_time := restart_time te \<rparr>
      in
      pbind (for_each (nic_update nd time_diff) nics w1) (\<lambda>w2.
      if CONNECTION_PORTS cfg \<noteq> []
      then for_each (port_update (run_command (netstat_out te))) (connection_ports_array cfg) w2
      else Inr w2))))))"

subsection \<open>The loop\<close>

text \<open>
  Lines 226 to 279: \<^verbatim>\<open>for X in range(1, run_times + 1)\<close> with the \<^verbatim>\<open>break\<close> of line 279.
  \<open>n\<close> counts the iterations that remain, \<open>x\<close> is the next value of \<open>X\<close>, \<open>M\<close> the minute
  read at line 157, and \<open>env x\<close> what the system answers during tick \<open>x\<close>.
\<close>

fun collect_loop ::
  "config \<Rightarrow> string list \<Rightarrow> int \<Rightarrow> (nat \<Rightarrow> tick_env) \<Rightarrow> nat \<Rightarrow> nat \<Rightarrow> window \<Rightarrow> py_error + window"
where
  "collect_loop cfg nics M env 0 x w = Inr w"
| "collect_loop cfg nics M env (Suc n) x w =
     pbind (tick cfg nics (env x) (w\<lparr> X := Some x \<rparr>)) (\<lambda>w'.
     pbind (minute_now (minute (env x))) (\<lambda>MM.
     if MM > M then Inr w' else collect_loop cfg nics M env n (Suc x) w'))"

text \<open>
  Lines 152 to 279: the whole sampling window. \<^verbatim>\<open>range(1, run_times + 1)\<close> is empty when
  \<open>run_times \<le> 0\<close>, which \<open>nat\<close> renders.
\<close>

definition sample_window ::
  "config \<Rightarrow> init_env \<Rightarrow> (nat \<Rightarrow> tick_env) \<Rightarrow> py_error + window" where
  "sample_window cfg ie env =
     pbind (run_times cfg) (\<lambda>rt.
     pbind (minute_now (minute0 ie)) (\<lambda>M.
     if M = 0 \<and> \<not> log_remove_ok ie then Inl OSError
     else
       pbind (open_window cfg ie) (\<lambda>w0.
       collect_loop cfg (network_interfaces_array cfg ie) M env (nat rt) 1 w0)))"

section \<open>After the window: averages and the report fields\<close>

text \<open>Reading \<open>X\<close> after the loop: a \<open>NameError\<close> when the loop body never ran.\<close>

definition get_X :: "window \<Rightarrow> py_error + nat" where
  "get_X w = (case X w of None \<Rightarrow> Inl NameError | Some x \<Rightarrow> Inr x)"

text \<open>Lines 347, 350 and 356.\<close>

definition cpu_avg :: "window \<Rightarrow> py_error + rat" where
  "cpu_avg w = pbind (get_X w) (\<lambda>x. py_truediv (of_int (t_cpu w)) (of_nat x))"

definition iow_avg :: "window \<Rightarrow> py_error + rat" where
  "iow_avg w = pbind (get_X w) (\<lambda>x. py_truediv (of_int (t_iow w)) (of_nat x))"

definition ram_avg :: "window \<Rightarrow> py_error + rat" where
  "ram_avg w = pbind (get_X w) (\<lambda>x. py_truediv (t_ram w) (of_nat x))"

text \<open>
  Lines 363 to 366; the arguments are the outputs of the two \<^verbatim>\<open>run_command\<close> calls of
  lines 359 and 362.
\<close>

definition swap_usage :: "string \<Rightarrow> string \<Rightarrow> py_error + rat" where
  "swap_usage swap_size swap_free =
     pbind (py_int swap_size) (\<lambda>sz.
     if sz > 0 then
       pbind (py_int swap_free) (\<lambda>fr.
       pbind (py_int swap_size) (\<lambda>sz'.
       pbind (py_truediv (of_int fr) (of_int sz')) (\<lambda>q.
       Inr (100 - q * 100))))
     else Inr 0)"

fun map_r :: "('a \<Rightarrow> py_error + 'b) \<Rightarrow> 'a list \<Rightarrow> py_error + 'b list" where
  "map_r f [] = Inr []"
| "map_r f (x # xs) = pbind (f x) (\<lambda>y. pbind (map_r f xs) (\<lambda>ys. Inr (y # ys)))"

text \<open>Lines 379 and 380, for one interface: its name, \<open>rx_avg\<close> and \<open>tx_avg\<close>.\<close>

definition nic_avg :: "window \<Rightarrow> string \<Rightarrow> py_error + (string \<times> int \<times> int)" where
  "nic_avg w nic =
     pbind (py_getitem (t_rx w) nic) (\<lambda>sum_rx.
     pbind (get_X w) (\<lambda>x.
     pbind (py_truediv (of_int sum_rx) (of_nat x)) (\<lambda>q_rx.
     pbind (py_getitem (t_tx w) nic) (\<lambda>sum_tx.
     pbind (py_truediv (of_int sum_tx) (of_nat x)) (\<lambda>q_tx.
     Inr (nic, py_trunc q_rx, py_trunc q_tx))))))"

text \<open>Line 381: one record of \<open>nics_str\<close>.\<close>

definition nic_record :: "string \<times> int \<times> int \<Rightarrow> string" where
  "nic_record r =
     ''|'' @ fst r @ '';'' @ py_str (fst (snd r)) @ '';'' @ py_str (snd (snd r)) @ '';''"

text \<open>Line 389, for one port, and line 390.\<close>

definition con_avg :: "window \<Rightarrow> string \<Rightarrow> py_error + (string \<times> int)" where
  "con_avg w c_port =
     pbind (py_getitem (connections w) c_port) (\<lambda>c.
     pbind (get_X w) (\<lambda>x.
     pbind (py_truediv (of_int c) (of_nat x)) (\<lambda>q.
     Inr (c_port, py_trunc q))))"

definition conn_record :: "string \<times> int \<Rightarrow> string" where
  "conn_record r = ''|'' @ fst r @ '';'' @ py_str (snd r)"

text \<open>
  Lines 285 to 291, for one entry of \<open>v_disks\<close>: nothing when no line of
  \<^verbatim>\<open>/proc/diskstats\<close> holds the device name, else the mount point and the two values.
\<close>

definition iops_entry ::
  "string \<Rightarrow> window \<Rightarrow> string \<times> string \<Rightarrow> py_error + (string \<times> int \<times> int) list" where
  "iops_entry ds w md =
     (case find_line (snd md) (py_split_on newline ds) of
        None \<Rightarrow> Inr []
      | Some line \<Rightarrow>
          let parts = py_split line in
          pbind (py_index parts 5) (\<lambda>p5. pbind (py_int p5) (\<lambda>r1.
          pbind (py_getitem (iops_read w) (fst md)) (\<lambda>r0.
          pbind (py_truediv (of_int ((r1 - r0) * 512)) (t_time_diff w)) (\<lambda>read_val.
          pbind (py_index parts 9) (\<lambda>p9. pbind (py_int p9) (\<lambda>w1.
          pbind (py_getitem (iops_write w) (fst md)) (\<lambda>w0.
          pbind (py_truediv (of_int ((w1 - w0) * 512)) (t_time_diff w)) (\<lambda>write_val.
          Inr [(fst md, py_trunc read_val, py_trunc write_val)])))))))))"

definition iops_record :: "string \<times> int \<times> int \<Rightarrow> string" where
  "iops_record r =
     ''|'' @ fst r @ '';'' @ py_str (fst (snd r)) @ '';'' @ py_str (snd (snd r))"

text \<open>
  What the script has computed by line 390, in the order of the fields of the report.
  The three strings are \<open>iops_str\<close>, \<open>nics_str\<close> and \<open>conn_str\<close> before encoding.
\<close>

record report =
  ticks :: nat
  r_cpu_avg :: rat
  r_iow_avg :: rat
  r_ram_avg :: rat
  r_swap_usage :: rat
  r_nics :: "(string \<times> int \<times> int) list"
  r_conns :: "(string \<times> int) list"
  r_iops :: "(string \<times> int \<times> int) list"
  iops_str :: string
  nics_str :: string
  conn_str :: string

text \<open>Lines 281 to 390 on the closed window, in the order of the script.\<close>

definition assemble ::
  "config \<Rightarrow> string list \<Rightarrow> final_env \<Rightarrow> window \<Rightarrow> py_error + report" where
  "assemble cfg nics fe w =
     pbind (read_file (diskstats1 fe)) (\<lambda>ds.
     pbind (map_r (iops_entry ds w) v_disks) (\<lambda>iops.
     pbind (cpu_avg w) (\<lambda>ca.
     pbind (iow_avg w) (\<lambda>ia.
     pbind (ram_avg w) (\<lambda>ra.
     pbind (swap_usage (run_command (swap_size_out fe)) (run_command (swap_free_out fe)))
       (\<lambda>su.
     pbind (map_r (nic_avg w) nics) (\<lambda>ns.
     pbind (if CONNECTION_PORTS cfg \<noteq> [] then map_r (con_avg w) (connection_ports_array cfg)
            else Inr []) (\<lambda>cs.
     pbind (get_X w) (\<lambda>x.
     Inr \<lparr> ticks = x, r_cpu_avg = ca, r_iow_avg = ia, r_ram_avg = ra, r_swap_usage = su,
           r_nics = ns, r_conns = cs, r_iops = concat iops,
           iops_str = concat (map iops_record (concat iops)),
           nics_str = concat (map nic_record ns),
           conn_str = concat (map conn_record cs) \<rparr>)))))))))"

text \<open>The script from line 152 to line 390.\<close>

definition agent ::
  "config \<Rightarrow> init_env \<Rightarrow> (nat \<Rightarrow> tick_env) \<Rightarrow> final_env \<Rightarrow> py_error + report" where
  "agent cfg ie env fe =
     pbind (sample_window cfg ie env)
       (assemble cfg (network_interfaces_array cfg ie) fe)"

section \<open>Encoding of the report fields\<close>

definition b64_alphabet :: string where
  "b64_alphabet = ''ABCDEFGHIJKLMNOPQRSTUVWXYZabcdefghijklmnopqrstuvwxyz0123456789+/''"

definition b64_char :: "nat \<Rightarrow> char" where
  "b64_char n = b64_alphabet ! n"

text \<open>\<^verbatim>\<open>base64.b64encode(data).decode()\<close>: three bytes give four characters.\<close>

fun b64encode :: "string \<Rightarrow> string" where
  "b64encode [] = []"
| "b64encode [a] =
     (let x = (of_char a :: nat)
      in [b64_char (x div 4), b64_char (x mod 4 * 16), CHR ''='', CHR ''=''])"
| "b64encode [a, b] =
     (let x = (of_char a :: nat); y = (of_char b :: nat)
      in [b64_char (x div 4), b64_char (x mod 4 * 16 + y div 16), b64_char (y mod 16 * 4),
          CHR ''=''])"
| "b64encode (a # b # c # rest) =
     (let x = (of_char a :: nat); y = (of_char b :: nat); z = (of_char c :: nat)
      in [b64_char (x div 4), b64_char (x mod 4 * 16 + y div 16),
          b64_char (y mod 16 * 4 + z div 64), b64_char (z mod 64)]) @ b64encode rest"

text \<open>\<^verbatim>\<open>s.replace(c, r)\<close> for a pattern \<open>c\<close> of one character.\<close>

definition py_replace :: "char \<Rightarrow> string \<Rightarrow> string \<Rightarrow> string" where
  "py_replace c r s = concat (map (\<lambda>x. if x = c then r else [x]) s)"

text \<open>\<^verbatim>\<open>base64_prep\<close> (lines 123 to 127).\<close>

definition base64_prep :: "string \<Rightarrow> string" where
  "base64_prep s = py_replace (CHR ''/'') ''%2F'' (py_replace (CHR ''+'') ''%2B'' s)"

text \<open>
  \<^verbatim>\<open>compress_and_encode\<close> (lines 129 to 135). \<^verbatim>\<open>gzip.compress\<close> is a library function
  whose output holds a time stamp; it is the parameter \<open>gz\<close>.
\<close>

definition compress_and_encode :: "(string \<Rightarrow> string) \<Rightarrow> string \<Rightarrow> string" where
  "compress_and_encode gz data = base64_prep (b64encode (gz data))"

text \<open>Line 321, line 333 and line 341: the fields that are base64 of a plain text.\<close>

definition os_encoded :: "string \<Rightarrow> string \<Rightarrow> int \<Rightarrow> string" where
  "os_encoded os_info kernel_version requires_reboot =
     b64encode (os_info @ ''|'' @ kernel_version @ ''|'' @ py_str requires_reboot)"

definition cpu_model_encoded :: "string \<Rightarrow> string" where
  "cpu_model_encoded cpu_model = b64encode cpu_model"

text \<open>Line 392.\<close>

definition conn_data :: "string \<Rightarrow> string" where
  "conn_data cs = base64_prep (b64encode cs)"

section \<open>Service status\<close>

text \<open>
  \<^verbatim>\<open>service_status\<close> (lines 101 to 121). The function talks to the system three ways,
  and the model returns, beside the result, the calls it made, in order: the \<^verbatim>\<open>ps\<close>
  pipeline for the name, \<^verbatim>\<open>os.path.exists\<close> on a path, and
  \<^verbatim>\<open>systemctl is-active --quiet\<close> for the name. \<open>systemctl_run\<close> is what
  \<^verbatim>\<open>subprocess.run\<close> did for the last: it raised, or returned with an exit status.
\<close>

datatype call = PsGrep string | PathExists string | SystemctlIsActive string

record service_env =
  ps_out :: "string option"
  usr_bin_systemctl :: bool
  bin_systemctl :: bool
  systemctl_run :: "py_error + int"

definition service_status :: "service_env \<Rightarrow> string \<Rightarrow> (py_error + string) \<times> call list" where
  "service_status se service_name =
     (let ps_output = run_command (ps_out se);
          up = b64encode service_name @ '',1'';
          down = b64encode service_name @ '',0'';
          ps_positive = (if ps_output \<noteq> [] then pbind (py_int ps_output) (\<lambda>n. Inr (n > 0))
                         else Inr False)
      in case ps_positive of
           Inl e \<Rightarrow> (Inl e, [PsGrep service_name])
         | Inr True \<Rightarrow> (Inr up, [PsGrep service_name])
         | Inr False \<Rightarrow>
             let probes = (if usr_bin_systemctl se then [PathExists ''/usr/bin/systemctl'']
                           else [PathExists ''/usr/bin/systemctl'', PathExists ''/bin/systemctl''])
             in if usr_bin_systemctl se \<or> bin_systemctl se then
                  (case systemctl_run se of
                     Inl e \<Rightarrow> (Inl e, PsGrep service_name # probes @ [SystemctlIsActive service_name])
                   | Inr rc \<Rightarrow>
                       (Inr (if rc = 0 then up else down),
                        PsGrep service_name # probes @ [SystemctlIsActive service_name]))
                else (Inr down, PsGrep service_name # probes))"

section \<open>Notions used to state the properties\<close>

text \<open>The fields of the \<^verbatim>\<open>vmstat\<close> line of a tick, and the three values line 232, 236 and
  242 compute from them (meaningful when the tick raises nothing).\<close>

definition vmstat_fields :: "tick_env \<Rightarrow> string list" where
  "vmstat_fields te = py_split (run_command (vmstat_out te))"

definition tick_cpu :: "tick_env \<Rightarrow> int" where
  "tick_cpu te = projr (cpu_sample (vmstat_fields te))"

definition tick_iow :: "tick_env \<Rightarrow> int" where
  "tick_iow te = projr (iow_sample (vmstat_fields te))"

definition tick_ram :: "tick_env \<Rightarrow> rat" where
  "tick_ram te = projr (ram_sample (vmstat_fields te) (run_command (meminfo_out te)))"

text \<open>
  The rate of one counter of one interface over one tick: column \<open>col\<close> of the first line
  of \<open>nd\<close> that holds the interface name and a colon, minus the stored reading \<open>prev\<close>,
  over the elapsed time \<open>td\<close>, truncated. It is 0 when the text has no such line.
\<close>

definition counter_rate :: "string \<Rightarrow> nat \<Rightarrow> rat \<Rightarrow> int option \<Rightarrow> string \<Rightarrow> int" where
  "counter_rate nd col td prev nic =
     (case find_line (nic @ '':'') (py_split_on newline nd) of
        None \<Rightarrow> 0
      | Some line \<Rightarrow>
          (case pbind (py_index (py_split line) col) py_int of
             Inl e \<Rightarrow> 0
           | Inr cur \<Rightarrow>
               (case prev of None \<Rightarrow> 0 | Some p \<Rightarrow> py_trunc (of_int (cur - p) / td))))"

definition rx_rate :: "tick_env \<Rightarrow> window \<Rightarrow> string \<Rightarrow> int" where
  "rx_rate te w nic =
     (case net_dev te of None \<Rightarrow> 0
      | Some nd \<Rightarrow> counter_rate nd 1 (end_time te - start_time w) (a_rx w nic) nic)"

definition tx_rate :: "tick_env \<Rightarrow> window \<Rightarrow> string \<Rightarrow> int" where
  "tx_rate te w nic =
     (case net_dev te of None \<Rightarrow> 0
      | Some nd \<Rightarrow> counter_rate nd 9 (end_time te - start_time w) (a_tx w nic) nic)"

text \<open>
  \<open>k\<close> ticks in a row, numbered \<open>x\<close>, \<open>x + 1\<close>, ..., with no minute check: the loop body
  iterated. \<open>window_before\<close> is the window in which tick \<open>k\<close> of a run starts.
\<close>

fun run_ticks ::
  "config \<Rightarrow> string list \<Rightarrow> (nat \<Rightarrow> tick_env) \<Rightarrow> nat \<Rightarrow> nat \<Rightarrow> window \<Rightarrow> py_error + window"
where
  "run_ticks cfg nics env x 0 w = Inr w"
| "run_ticks cfg nics env x (Suc k) w =
     pbind (tick cfg nics (env x) (w\<lparr> X := Some x \<rparr>)) (run_ticks cfg nics env (Suc x) k)"

definition window_before ::
  "config \<Rightarrow> string list \<Rightarrow> (nat \<Rightarrow> tick_env) \<Rightarrow> window \<Rightarrow> nat \<Rightarrow> window" where
  "window_before cfg nics env w0 k = projr (run_ticks cfg nics env 1 (k - 1) w0)"

text \<open>The accumulators that neither inner loop of a tick touches.\<close>

definition scalars :: "window \<Rightarrow> nat option \<times> int \<times> int \<times> rat \<times> rat \<times> rat \<times> (string \<rightharpoonup> int) \<times> (string \<rightharpoonup> int)" where
  "scalars w = (X w, t_cpu w, t_iow w, t_ram w, t_time_diff w, start_time w, iops_read w, iops_write w)"

text \<open>
  The reading an interface has stored after a tick: the one parsed from column \<open>col\<close> of
  its line of \<open>nd\<close>, and the old one when \<open>nd\<close> has no such line.
\<close>

definition counter_next :: "string \<Rightarrow> nat \<Rightarrow> int option \<Rightarrow> string \<Rightarrow> int option" where
  "counter_next nd col prev nic =
     (case find_line (nic @ '':'') (py_split_on newline nd) of
        None \<Rightarrow> prev
      | Some line \<Rightarrow>
          (case pbind (py_index (py_split line) col) py_int of
             Inl e \<Rightarrow> prev
           | Inr cur \<Rightarrow> Some cur))"

text \<open>The time a tick measures: from the clock read that ended the previous tick's
  measurement (line 250; line 155 before the first tick) to its own read at line 247.\<close>

definition tick_elapsed :: "tick_env \<Rightarrow> window \<Rightarrow> rat" where
  "tick_elapsed te w = end_time te - start_time w"

text \<open>The loop stops after tick \<open>j\<close>: the minute read at line 277 is greater than \<open>M\<close>.\<close>

definition breaks :: "int \<Rightarrow> (nat \<Rightarrow> tick_env) \<Rightarrow> nat \<Rightarrow> bool" where
  "breaks M env j = (case minute_now (minute (env j)) of Inl e \<Rightarrow> False | Inr MM \<Rightarrow> M < MM)"

text \<open>A window in which nothing has been accumulated yet, opened at clock time \<open>t\<close>.\<close>

definition fresh :: "rat \<Rightarrow> window \<Rightarrow> bool" where
  "fresh t w \<longleftrightarrow>
     t_cpu w = 0 \<and> t_iow w = 0 \<and> t_ram w = 0 \<and> t_time_diff w = 0 \<and> start_time w = t
     \<and> X w = None \<and> (\<forall>n s. t_rx w n = Some s \<longrightarrow> s = 0)
     \<and> (\<forall>n s. t_tx w n = Some s \<longrightarrow> s = 0)"

text \<open>
  Column \<open>col\<close> of the first line of a \<^verbatim>\<open>/proc/diskstats\<close> text that holds the device
  name, when there is such a line and the column is an integer.
\<close>

definition disk_reading :: "string \<Rightarrow> string \<Rightarrow> nat \<Rightarrow> int option" where
  "disk_reading ds disk col =
     (case find_line disk (py_split_on newline ds) of
        None \<Rightarrow> None
      | Some line \<Rightarrow>
          (case pbind (py_index (py_split line) col) py_int of
             Inl e \<Rightarrow> None
           | Inr v \<Rightarrow> Some v))"

text \<open>
  The rate of one disk counter over the whole window: the reading of the text \<open>ds1\<close>
  minus the reading of the text \<open>ds0\<close>, times 512, over the time \<open>T\<close>, truncated.
\<close>

definition whole_window_rate :: "string \<Rightarrow> string \<Rightarrow> string \<Rightarrow> nat \<Rightarrow> rat \<Rightarrow> int" where
  "whole_window_rate ds0 ds1 disk col T =
     py_trunc (of_int ((the (disk_reading ds1 disk col) - the (disk_reading ds0 disk col)) * 512)
               / T)"

section \<open>Example inputs\<close>

text \<open>A host where \<^verbatim>\<open>ps\<close> finds two processes for the service, and two where it finds none.\<close>

definition se_running :: service_env where
  "se_running =
     \<lparr> ps_out = Some ''2\<newline>'', usr_bin_systemctl = True, bin_systemctl = True,
       systemctl_run = Inr 3 \<rparr>"

definition se_systemd :: service_env where
  "se_systemd =
     \<lparr> ps_out = Some ''0\<newline>'', usr_bin_systemctl = False, bin_systemctl = True,
       systemctl_run = Inr 0 \<rparr>"

definition se_plain :: service_env where
  "se_plain =
     \<lparr> ps_out = Some ''0\<newline>'', usr_bin_systemctl = False, bin_systemctl = False,
       systemctl_run = Inl OSError \<rparr>"

subsection \<open>Readings of one host\<close>

text \<open>The \<^verbatim>\<open>ip\<close> pipeline of line 172 on a host with one interface up.\<close>

definition ex_ip_out :: string where
  "ex_ip_out = ''eth0\<newline>''"

text \<open>The last line of \<^verbatim>\<open>vmstat 3 2\<close>: 95 percent idle, 1 percent waiting.\<close>

definition ex_vmstat_out :: string where
  "ex_vmstat_out = '' 1  0      0 300000 100000 200000    0    0     5    10  100  200  3  1 95  1  0\<newline>''"

text \<open>The \<^verbatim>\<open>MemTotal\<close> pipeline of line 241.\<close>

definition ex_meminfo_out :: string where
  "ex_meminfo_out = ''1000000\<newline>''"

text \<open>\<^verbatim>\<open>/proc/net/dev\<close> with \<^verbatim>\<open>eth0\<close> at 1000 bytes received and 2000 sent, and later at 1500 and 2600.\<close>

definition ex_net_dev0 :: string where
  "ex_net_dev0 = ''Inter-|   Receive  |  Transmit\<newline> face |bytes packets errs drop fifo frame compressed multicast|bytes packets errs drop fifo colls carrier compressed\<newline>    lo: 500 5 0 0 0 0 0 0 500 5 0 0 0 0 0 0\<newline>  eth0: 1000 10 0 0 0 0 0 0 2000 20 0 0 0 0 0 0\<newline>''"

definition ex_net_dev1 :: string where
  "ex_net_dev1 = ''Inter-|   Receive  |  Transmit\<newline> face |bytes packets errs drop fifo frame compressed multicast|bytes packets errs drop fifo colls carrier compressed\<newline>    lo: 500 5 0 0 0 0 0 0 500 5 0 0 0 0 0 0\<newline>  eth0: 1500 10 0 0 0 0 0 0 2600 20 0 0 0 0 0 0\<newline>''"

text \<open>\<^verbatim>\<open>/proc/diskstats\<close> before the window and after it.\<close>

definition ex_diskstats0 :: string where
  "ex_diskstats0 = ''   8       0 sda 900 0 112000 0 700 0 96000 0 0 0 0\<newline>   8       1 sda1 500 0 64000 0 300 0 48000 0 0 0 0\<newline>   8       3 sda3 400 0 48000 0 400 0 48000 0 0 0 0\<newline>''"

definition ex_diskstats1 :: string where
  "ex_diskstats1 = ''   8       0 sda 900 0 112000 0 700 0 96000 0 0 0 0\<newline>   8       1 sda1 500 0 64012 0 300 0 48024 0 0 0 0\<newline>   8       3 sda3 400 0 48003 0 400 0 48000 0 0 0 0\<newline>''"

text \<open>The two swap pipelines of lines 359 and 362.\<close>

definition ex_swap_size_out :: string where
  "ex_swap_size_out = ''2097148\<newline>''"

definition ex_swap_free_out :: string where
  "ex_swap_free_out = ''1048574\<newline>''"

text \<open>The \<^verbatim>\<open>netstat\<close> pipeline: the fourth column of two header lines and three sockets.\<close>

definition ex_netstat_out :: string where
  "ex_netstat_out = ''(w/o\<newline>Local\<newline>10.0.0.5:80\<newline>10.0.0.5:80\<newline>10.0.0.5:22\<newline>''"

subsection \<open>Runs of the agent on that host\<close>

text \<open>
  The start of a run in minute 07 of the hour, at time 0 of the clock, with
  \<^verbatim>\<open>eth0\<close> at 1000 bytes received.
\<close>

definition ex_ie :: init_env where
  "ex_ie =
     \<lparr> time0 = 0, minute0 = ''07'', log_remove_ok = True, ip_out = Some ex_ip_out,
       net_dev0 = Some ex_net_dev0, netstat0 = Some ex_netstat_out,
       diskstats0 = Some ex_diskstats0 \<rparr>"

text \<open>A tick that reads its counters at time \<open>t\<close> and ends in minute \<open>m\<close>.\<close>

definition ex_tick :: "rat \<Rightarrow> string \<Rightarrow> tick_env" where
  "ex_tick t m =
     \<lparr> vmstat_out = Some ex_vmstat_out, meminfo_out = Some ex_meminfo_out,
       net_dev = Some ex_net_dev1, end_time = t, restart_time = t,
       netstat_out = Some ex_netstat_out, minute = m \<rparr>"

text \<open>
  Ticks every 3 seconds, the counter of \<^verbatim>\<open>eth0\<close> read as 1000, 1500, 1500 at the times
  0, 3, 6; the minute changes to 08 during the second tick.
\<close>

definition ex_env :: "nat \<Rightarrow> tick_env" where
  "ex_env k = ex_tick (3 * of_nat k) (if k < 2 then ''07'' else ''08'')"

definition ex_fe :: final_env where
  "ex_fe =
     \<lparr> diskstats1 = Some ex_diskstats1, swap_size_out = Some ex_swap_size_out,
       swap_free_out = Some ex_swap_free_out \<rparr>"

text \<open>The same host with port 80 watched.\<close>

definition port_config :: config where
  "port_config = default_config \<lparr> CONNECTION_PORTS := ''80'' \<rparr>"

text \<open>
  A run started in minute 59 of the hour, 12 seconds before the hour: the minute is 00
  from the fifth tick on.
\<close>

definition late_ie :: init_env where
  "late_ie = ex_ie \<lparr> minute0 := ''59'' \<rparr>"

definition late_env :: "nat \<Rightarrow> tick_env" where
  "late_env k = ex_tick (3 * of_nat k) (if k < 5 then ''59'' else ''00'')"


text \<open>
  Windows of runs on that host: the clock and the elapsed time, the stored readings and
  running sums of \<^verbatim>\<open>eth0\<close>, the number of ticks done and the value of \<open>X\<close>.
\<close>

definition ex_window ::
  "rat \<Rightarrow> rat \<Rightarrow> int \<Rightarrow> int \<Rightarrow> int \<Rightarrow> int \<Rightarrow> nat \<Rightarrow> nat option \<Rightarrow> window" where
  "ex_window st td rx tx srx stx n x =
     \<lparr> start_time = st, t_time_diff = td,
       a_rx = [''eth0'' \<mapsto> rx], a_tx = [''eth0'' \<mapsto> tx],
       t_rx = [''eth0'' \<mapsto> srx], t_tx = [''eth0'' \<mapsto> stx],
       connections = Map.empty,
       iops_read = [''/'' \<mapsto> 64000, ''/volume1'' \<mapsto> 48000],
       iops_write = [''/'' \<mapsto> 48000, ''/volume1'' \<mapsto> 48000],
       t_cpu = 5 * int n, t_iow = int n, t_ram = 40 * of_nat n, X = x \<rparr>"

text \<open>What the example run has computed by line 390.\<close>

definition ex_report :: report where
  "ex_report =
     \<lparr> ticks = 2, r_cpu_avg = 5, r_iow_avg = 1, r_ram_avg = 40, r_swap_usage = 50,
       r_nics = [(''eth0'', 83, 100)], r_conns = [],
       r_iops = [(''/'', 1024, 2048), (''/volume1'', 256, 0)],
       iops_str = ''|/;1024;2048|/volume1;256;0'', nics_str = ''|eth0;83;100;'',
       conn_str = [] \<rparr>"


section \<open>Properties of the sampling loop\<close>

lemma pbind_Inr_iff: "pbind m f = Inr y \<longleftrightarrow> (\<exists>x. m = Inr x \<and> f x = Inr y)"
  by (cases m) auto

lemma for_each_invariant:
  assumes step: "\<And>x s s'. f x s = Inr s' \<Longrightarrow> P s \<Longrightarrow> P s'"
  shows "for_each f xs s = Inr s' \<Longrightarrow> P s \<Longrightarrow> P s'"
proof (induction xs arbitrary: s)
  case Nil
  then show ?case by simp
next
  case (Cons x xs)
  from Cons.prems(1) obtain s1 where s1: "f x s = Inr s1" and rest: "for_each f xs s1 = Inr s'"
    by (auto simp: pbind_Inr_iff)
  from step [OF s1 Cons.prems(2)] have "P s1" .
  with rest show ?case by (rule Cons.IH)
qed

lemma nic_update_frame:
  assumes "nic_update nd td nic w = Inr w'"
  shows "X w' = X w \<and> t_cpu w' = t_cpu w \<and> t_iow w' = t_iow w \<and> t_ram w' = t_ram w
    \<and> t_time_diff w' = t_time_diff w \<and> start_time w' = start_time w
    \<and> connections w' = connections w \<and> iops_read w' = iops_read w \<and> iops_write w' = iops_write w"
  using assms
  by (auto simp: nic_update_def Let_def pbind_Inr_iff split: option.splits)

lemma port_update_frame:
  assumes "port_update ns p w = Inr w'"
  shows "X w' = X w \<and> t_cpu w' = t_cpu w \<and> t_iow w' = t_iow w \<and> t_ram w' = t_ram w
    \<and> t_time_diff w' = t_time_diff w \<and> start_time w' = start_time w
    \<and> a_rx w' = a_rx w \<and> t_rx w' = t_rx w \<and> a_tx w' = a_tx w \<and> t_tx w' = t_tx w
    \<and> iops_read w' = iops_read w \<and> iops_write w' = iops_write w"
  using assms
  by (auto simp: port_update_def pbind_Inr_iff)

lemma nics_loop_scalars:
  "for_each (nic_update nd td) ns w = Inr w' \<Longrightarrow> scalars w' = scalars w"
  by (erule for_each_invariant [where P = "\<lambda>v. scalars v = scalars w", rotated])
     (auto simp: scalars_def dest: nic_update_frame)


lemma ports_loop_scalars:
  "for_each (port_update out) ps w = Inr w' \<Longrightarrow> scalars w' = scalars w"
  by (erule for_each_invariant [where P = "\<lambda>v. scalars v = scalars w", rotated])
     (auto simp: scalars_def dest: port_update_frame)

lemma ports_loop_nics:
  "for_each (port_update out) ps w = Inr w' \<Longrightarrow>
     a_rx w' = a_rx w \<and> t_rx w' = t_rx w \<and> a_tx w' = a_tx w \<and> t_tx w' = t_tx w"
  by (erule for_each_invariant
        [where P = "\<lambda>v. a_rx v = a_rx w \<and> t_rx v = t_rx w \<and> a_tx v = a_tx w \<and> t_tx v = t_tx w", rotated])
     (auto dest: port_update_frame)

lemma tick_scalars:
  assumes "tick cfg nics te w = Inr w'"
  shows "\<exists>cpu iow ram.
           cpu_sample (vmstat_fields te) = Inr cpu \<and> iow_sample (vmstat_fields te) = Inr iow
         \<and> ram_sample (vmstat_fields te) (run_command (meminfo_out te)) = Inr ram
         \<and> t_cpu w' = t_cpu w + cpu \<and> t_iow w' = t_iow w + iow \<and> t_ram w' = t_ram w + ram
         \<and> t_time_diff w' = t_time_diff w + (end_time te - start_time w)
         \<and> start_time w' = restart_time te \<and> X w' = X w
         \<and> iops_read w' = iops_read w \<and> iops_write w' = iops_write w"
proof -
  from assms obtain cpu iow ram nd w2 where
    c: "cpu_sample (vmstat_fields te) = Inr cpu" and i: "iow_sample (vmstat_fields te) = Inr iow"
    and r: "ram_sample (vmstat_fields te) (run_command (meminfo_out te)) = Inr ram"
    and n: "for_each (nic_update nd (end_time te - start_time w)) nics
              (w\<lparr> t_cpu := t_cpu w + cpu, t_iow := t_iow w + iow, t_ram := t_ram w + ram,
                  t_time_diff := t_time_diff w + (end_time te - start_time w),
                  start_time := restart_time te \<rparr>) = Inr w2"
    and p: "(if CONNECTION_PORTS cfg \<noteq> []
             then for_each (port_update (run_command (netstat_out te))) (connection_ports_array cfg) w2
             else Inr w2) = Inr w'"
    unfolding tick_def vmstat_fields_def Let_def pbind_Inr_iff by blast
  from nics_loop_scalars [OF n] have s2: "scalars w2 = (X w, t_cpu w + cpu, t_iow w + iow, t_ram w + ram,
       t_time_diff w + (end_time te - start_time w), restart_time te, iops_read w, iops_write w)"
    by (simp add: scalars_def)
  from p have "scalars w' = scalars w2"
    by (auto split: if_splits dest: ports_loop_scalars)
  with s2 c i r show ?thesis
    by (simp add: scalars_def)
qed

subsection \<open>The interface loop of a tick\<close>

lemma py_trunc_0 [simp]: "py_trunc 0 = 0"
  by (simp add: py_trunc_def)

lemma counter_rate_next [simp]:
  "counter_rate nd col td (counter_next nd col prev nic) nic = 0"
  by (simp add: counter_rate_def counter_next_def split: option.splits sum.splits)

lemma counter_next_idem [simp]:
  "counter_next nd col (counter_next nd col prev nic) nic = counter_next nd col prev nic"
  by (simp add: counter_next_def split: option.splits sum.splits)

lemma nic_update_other:
  "nic_update nd td nic w = Inr w' \<Longrightarrow> m \<noteq> nic \<Longrightarrow>
     a_rx w' m = a_rx w m \<and> t_rx w' m = t_rx w m \<and> a_tx w' m = a_tx w m \<and> t_tx w' m = t_tx w m"
  by (auto simp: nic_update_def Let_def pbind_Inr_iff split: option.splits)

lemma nic_update_self:
  assumes "nic_update nd td nic w = Inr w'"
  shows "a_rx w' nic = counter_next nd 1 (a_rx w nic) nic
       \<and> a_tx w' nic = counter_next nd 9 (a_tx w nic) nic
       \<and> t_rx w' nic = map_option (\<lambda>s. s + counter_rate nd 1 td (a_rx w nic) nic) (t_rx w nic)
       \<and> t_tx w' nic = map_option (\<lambda>s. s + counter_rate nd 9 td (a_tx w nic) nic) (t_tx w nic)"
proof (cases "find_line (nic @ '':'') (py_split_on newline nd)")
  case None
  with assms show ?thesis
    by (simp add: nic_update_def counter_next_def counter_rate_def option.map_ident)
next
  case (Some line)
  with assms show ?thesis
    by (auto simp: nic_update_def counter_next_def counter_rate_def Let_def pbind_Inr_iff
          py_getitem_def py_truediv_def split: option.splits if_splits)
qed

lemma nics_loop_other:
  assumes "for_each (nic_update nd td) ns w = Inr w'" and "nic \<notin> set ns"
  shows "a_rx w' nic = a_rx w nic \<and> t_rx w' nic = t_rx w nic
       \<and> a_tx w' nic = a_tx w nic \<and> t_tx w' nic = t_tx w nic"
  using assms
proof (induction ns arbitrary: w)
  case Nil
  then show ?case by simp
next
  case (Cons x xs)
  from Cons.prems(1) obtain w1 where 1: "nic_update nd td x w = Inr w1"
    and 2: "for_each (nic_update nd td) xs w1 = Inr w'"
    by (auto simp: pbind_Inr_iff)
  from Cons.prems(2) have "nic \<noteq> x" and "nic \<notin> set xs" by auto
  with nic_update_other [OF 1, of nic] Cons.IH [OF 2] show ?case by simp
qed

lemma nics_loop_self:
  assumes "for_each (nic_update nd td) ns w = Inr w'" and "nic \<in> set ns"
  shows "a_rx w' nic = counter_next nd 1 (a_rx w nic) nic
       \<and> a_tx w' nic = counter_next nd 9 (a_tx w nic) nic
       \<and> t_rx w' nic = map_option (\<lambda>s. s + counter_rate nd 1 td (a_rx w nic) nic) (t_rx w nic)
       \<and> t_tx w' nic = map_option (\<lambda>s. s + counter_rate nd 9 td (a_tx w nic) nic) (t_tx w nic)"
  using assms
proof (induction ns arbitrary: w)
  case Nil
  then show ?case by simp
next
  case (Cons x xs)
  from Cons.prems(1) obtain w1 where 1: "nic_update nd td x w = Inr w1"
    and 2: "for_each (nic_update nd td) xs w1 = Inr w'"
    by (auto simp: pbind_Inr_iff)
  show ?case
  proof (cases "x = nic")
    case True
    note self = nic_update_self [OF 1 [unfolded True]]
    show ?thesis
    proof (cases "nic \<in> set xs")
      case True
      from Cons.IH [OF 2 True] self show ?thesis
        by (simp add: option.map_comp comp_def option.map_ident)
    next
      case False
      from nics_loop_other [OF 2 False] self show ?thesis by simp
    qed
  next
    case False
    with Cons.prems(2) have "nic \<in> set xs" by simp
    from Cons.IH [OF 2 this] nic_update_other [OF 1, of nic] False show ?thesis by simp
  qed
qed

text \<open>A tick, seen from one monitored interface.\<close>

lemma tick_nic:
  assumes "tick cfg nics te w = Inr w'" and "nic \<in> set nics"
  shows "\<exists>nd. net_dev te = Some nd
       \<and> a_rx w' nic = counter_next nd 1 (a_rx w nic) nic
       \<and> a_tx w' nic = counter_next nd 9 (a_tx w nic) nic
       \<and> t_rx w' nic = map_option (\<lambda>s. s + rx_rate te w nic) (t_rx w nic)
       \<and> t_tx w' nic = map_option (\<lambda>s. s + tx_rate te w nic) (t_tx w nic)"
proof -
  from assms(1) obtain cpu iow ram nd w2 where
    nd: "read_file (net_dev te) = Inr nd"
    and n: "for_each (nic_update nd (end_time te - start_time w)) nics
              (w\<lparr> t_cpu := t_cpu w + cpu, t_iow := t_iow w + iow, t_ram := t_ram w + ram,
                  t_time_diff := t_time_diff w + (end_time te - start_time w),
                  start_time := restart_time te \<rparr>) = Inr w2"
    and p: "(if CONNECTION_PORTS cfg \<noteq> []
             then for_each (port_update (run_command (netstat_out te))) (connection_ports_array cfg) w2
             else Inr w2) = Inr w'"
    unfolding tick_def Let_def pbind_Inr_iff by blast
  from nd have nd': "net_dev te = Some nd"
    by (simp add: read_file_def split: option.splits)
  from p have same: "a_rx w' = a_rx w2 \<and> t_rx w' = t_rx w2 \<and> a_tx w' = a_tx w2 \<and> t_tx w' = t_tx w2"
    by (auto split: if_splits dest: ports_loop_nics)
  from nics_loop_self [OF n assms(2)] same nd' show ?thesis
    by (simp add: rx_rate_def tx_rate_def)
qed

lemma tick_nic_other:
  assumes "tick cfg nics te w = Inr w'" and "nic \<notin> set nics"
  shows "a_rx w' nic = a_rx w nic \<and> t_rx w' nic = t_rx w nic
       \<and> a_tx w' nic = a_tx w nic \<and> t_tx w' nic = t_tx w nic"
proof -
  from assms(1) obtain cpu iow ram nd w2 where
    n: "for_each (nic_update nd (end_time te - start_time w)) nics
              (w\<lparr> t_cpu := t_cpu w + cpu, t_iow := t_iow w + iow, t_ram := t_ram w + ram,
                  t_time_diff := t_time_diff w + (end_time te - start_time w),
                  start_time := restart_time te \<rparr>) = Inr w2"
    and p: "(if CONNECTION_PORTS cfg \<noteq> []
             then for_each (port_update (run_command (netstat_out te))) (connection_ports_array cfg) w2
             else Inr w2) = Inr w'"
    unfolding tick_def Let_def pbind_Inr_iff by blast
  from p have same: "a_rx w' = a_rx w2 \<and> t_rx w' = t_rx w2 \<and> a_tx w' = a_tx w2 \<and> t_tx w' = t_tx w2"
    by (auto split: if_splits dest: ports_loop_nics)
  from nics_loop_other [OF n assms(2)] same show ?thesis by simp
qed

subsection \<open>The port loop of a tick\<close>


subsection \<open>Ticks in a row\<close>

lemma run_ticks_Suc_Inr:
  "tick cfg nics (env x) (w\<lparr> X := Some x \<rparr>) = Inr w1 \<Longrightarrow>
     run_ticks cfg nics env x (Suc i) w = run_ticks cfg nics env (Suc x) i w1"
  by simp

text \<open>
  An accumulator \<open>g\<close> to which every tick adds \<open>d\<close> (of the tick's inputs and of the
  window in which the tick starts) holds, after \<open>k\<close> ticks, the sum of what they added.
\<close>

lemma run_ticks_accum:
  fixes g :: "window \<Rightarrow> 'a::comm_monoid_add"
  assumes step: "\<And>te w w'. tick cfg nics te w = Inr w' \<Longrightarrow> I w \<Longrightarrow> I w' \<and> g w' = g w + d te w"
    and IX: "\<And>w x. I (w\<lparr> X := x \<rparr>) = I w"
    and gX: "\<And>w x. g (w\<lparr> X := x \<rparr>) = g w"
    and dX: "\<And>te w x. d te (w\<lparr> X := x \<rparr>) = d te w"
  shows "run_ticks cfg nics env x k w = Inr w' \<Longrightarrow> I w \<Longrightarrow>
           I w' \<and> g w' = g w + (\<Sum>i<k. d (env (x + i)) (projr (run_ticks cfg nics env x i w)))"
proof (induction k arbitrary: x w)
  case 0
  then show ?case by simp
next
  case (Suc k)
  from Suc.prems(1) obtain w1 where 1: "tick cfg nics (env x) (w\<lparr> X := Some x \<rparr>) = Inr w1"
    and 2: "run_ticks cfg nics env (Suc x) k w1 = Inr w'"
    by (auto simp: pbind_Inr_iff)
  from step [OF 1] Suc.prems(2) have I1: "I w1" and g1: "g w1 = g w + d (env x) w"
    by (simp_all add: IX gX dX)
  from Suc.IH [OF 2 I1] have I': "I w'"
    and g': "g w' = g w1 + (\<Sum>i<k. d (env (Suc x + i)) (projr (run_ticks cfg nics env (Suc x) i w1)))"
    by simp_all
  have "(\<Sum>i<Suc k. d (env (x + i)) (projr (run_ticks cfg nics env x i w)))
      = d (env x) w + (\<Sum>i<k. d (env (Suc x + i)) (projr (run_ticks cfg nics env (Suc x) i w1)))"
    by (simp add: sum.lessThan_Suc_shift run_ticks_Suc_Inr [where env = env and x = x, OF 1]
          del: run_ticks.simps(2) sum.lessThan_Suc)
  then show ?case using I' g' g1
    by (simp add: add.assoc)
qed

lemma run_ticks_X:
  "run_ticks cfg nics env x k w = Inr w' \<Longrightarrow>
     X w' = (if k = 0 then X w else Some (x + k - 1))"
proof (induction k arbitrary: x w)
  case 0
  then show ?case by simp
next
  case (Suc k)
  from Suc.prems obtain w1 where 1: "tick cfg nics (env x) (w\<lparr> X := Some x \<rparr>) = Inr w1"
    and 2: "run_ticks cfg nics env (Suc x) k w1 = Inr w'"
    by (auto simp: pbind_Inr_iff)
  from tick_scalars [OF 1] have "X w1 = Some x" by auto
  with Suc.IH [OF 2] show ?case by auto
qed

lemma run_ticks_prefix:
  "run_ticks cfg nics env x k w = Inr w' \<Longrightarrow> i \<le> k \<Longrightarrow>
     \<exists>v. run_ticks cfg nics env x i w = Inr v"
proof (induction i arbitrary: x k w)
  case 0
  then show ?case by simp
next
  case (Suc i)
  then obtain k' where k: "k = Suc k'" and ik: "i \<le> k'"
    by (cases k) auto
  from Suc.prems(1) k obtain w1 where 1: "tick cfg nics (env x) (w\<lparr> X := Some x \<rparr>) = Inr w1"
    and 2: "run_ticks cfg nics env (Suc x) k' w1 = Inr w'"
    by (auto simp: pbind_Inr_iff)
  from Suc.IH [OF 2 ik] 1 show ?case by simp
qed

lemma run_ticks_snoc:
  "run_ticks cfg nics env x (Suc k) w =
     pbind (run_ticks cfg nics env x k w)
       (\<lambda>v. tick cfg nics (env (x + k)) (v\<lparr> X := Some (x + k) \<rparr>))"
proof (induction k arbitrary: x w)
  case 0
  show ?case by (cases "tick cfg nics (env x) (w\<lparr> X := Some x \<rparr>)") simp_all
next
  case (Suc k)
  show ?case
  proof (cases "tick cfg nics (env x) (w\<lparr> X := Some x \<rparr>)")
    case (Inl e)
    then show ?thesis by simp
  next
    case (Inr w1)
    have "run_ticks cfg nics env x (Suc (Suc k)) w = run_ticks cfg nics env (Suc x) (Suc k) w1"
      using Inr by simp
    also have "\<dots> = pbind (run_ticks cfg nics env (Suc x) k w1)
       (\<lambda>v. tick cfg nics (env (Suc x + k)) (v\<lparr> X := Some (Suc x + k) \<rparr>))"
      by (rule Suc.IH)
    also have "run_ticks cfg nics env (Suc x) k w1 = run_ticks cfg nics env x (Suc k) w"
      using Inr by simp
    finally show ?thesis by simp
  qed
qed

subsection \<open>The loop\<close>

lemma collect_loop_run_ticks:
  "collect_loop cfg nics M env n x w = Inr w' \<Longrightarrow>
     \<exists>k\<le>n. run_ticks cfg nics env x k w = Inr w' \<and> (0 < n \<longrightarrow> 0 < k)
         \<and> (\<forall>i. Suc i < k \<longrightarrow> \<not> breaks M env (x + i))
         \<and> (k < n \<longrightarrow> breaks M env (x + k - 1))"
proof (induction n arbitrary: x w)
  case 0
  then show ?case by simp
next
  case (Suc n)
  from Suc.prems obtain w1 MM where 1: "tick cfg nics (env x) (w\<lparr> X := Some x \<rparr>) = Inr w1"
    and m: "minute_now (minute (env x)) = Inr MM"
    and r: "(if MM > M then Inr w1 else collect_loop cfg nics M env n (Suc x) w1) = Inr w'"
    by (auto simp: pbind_Inr_iff)
  show ?case
  proof (cases "MM > M")
    case True
    with r have "w' = w1" by simp
    with 1 m True show ?thesis
      by (intro exI [of _ 1]) (simp add: breaks_def)
  next
    case False
    with r have "collect_loop cfg nics M env n (Suc x) w1 = Inr w'" by simp
    from Suc.IH [OF this] obtain k where k: "k \<le> n"
      and rt: "run_ticks cfg nics env (Suc x) k w1 = Inr w'"
      and nb: "\<forall>i. Suc i < k \<longrightarrow> \<not> breaks M env (Suc x + i)"
      and br: "k < n \<longrightarrow> breaks M env (Suc x + k - 1)"
      by blast
    have "\<forall>i. Suc i < Suc k \<longrightarrow> \<not> breaks M env (x + i)"
    proof (intro allI impI)
      fix i assume i: "Suc i < Suc k"
      show "\<not> breaks M env (x + i)"
      proof (cases i)
        case 0
        with m False show ?thesis by (simp add: breaks_def)
      next
        case (Suc j)
        with i nb show ?thesis by auto
      qed
    qed
    with k rt br 1 show ?thesis
      by (intro exI [of _ "Suc k"]) auto
  qed
qed

text \<open>Conversely: ticks that raise nothing, with no stop before the last of them.\<close>

lemma run_ticks_collect_loop:
  "run_ticks cfg nics env x k w = Inr w' \<Longrightarrow> k \<le> n \<Longrightarrow>
   (\<forall>i<k. \<exists>MM. minute_now (minute (env (x + i))) = Inr MM) \<Longrightarrow>
   (\<forall>i. Suc i < k \<longrightarrow> \<not> breaks M env (x + i)) \<Longrightarrow>
   (k < n \<longrightarrow> 0 < k \<and> breaks M env (x + k - 1)) \<Longrightarrow>
     collect_loop cfg nics M env n x w = Inr w'"
proof (induction n arbitrary: x k w)
  case 0
  then show ?case by simp
next
  case (Suc n)
  show ?case
  proof (cases k)
    case 0
    with Suc.prems show ?thesis by simp
  next
    case (Suc k')
    from Suc.prems(1) Suc obtain w1 where 1: "tick cfg nics (env x) (w\<lparr> X := Some x \<rparr>) = Inr w1"
      and 2: "run_ticks cfg nics env (Suc x) k' w1 = Inr w'"
      by (auto simp: pbind_Inr_iff)
    from Suc.prems(3) Suc obtain MM where m: "minute_now (minute (env x)) = Inr MM"
      by (auto dest: spec [of _ 0])
    show ?thesis
    proof (cases k')
      case 0
      with 2 have w': "w' = w1" by simp
      show ?thesis
      proof (cases "MM > M")
        case True
        with 1 m w' show ?thesis by simp
      next
        case False
        with m have "\<not> breaks M env x" by (simp add: breaks_def)
        with Suc.prems(5) Suc 0 have "n = 0" by auto
        with 1 m w' False show ?thesis by simp
      qed
    next
      case k'': (Suc k'')
      from Suc.prems(4) Suc k'' have "\<not> breaks M env (x + 0)" by (auto dest: spec [of _ 0])
      with m have nb: "\<not> MM > M" by (simp add: breaks_def)
      have a: "k' \<le> n" using Suc.prems(2) Suc by simp
      have b: "\<forall>i<k'. \<exists>MM. minute_now (minute (env (Suc x + i))) = Inr MM"
      proof (intro allI impI)
        fix i assume "i < k'"
        with Suc.prems(3) Suc have "\<exists>MM. minute_now (minute (env (x + Suc i))) = Inr MM" by auto
        then show "\<exists>MM. minute_now (minute (env (Suc x + i))) = Inr MM" by simp
      qed
      have c: "\<forall>i. Suc i < k' \<longrightarrow> \<not> breaks M env (Suc x + i)"
      proof (intro allI impI)
        fix i assume "Suc i < k'"
        with Suc.prems(4) Suc have "\<not> breaks M env (x + Suc i)" by auto
        then show "\<not> breaks M env (Suc x + i)" by simp
      qed
      have d: "k' < n \<longrightarrow> 0 < k' \<and> breaks M env (Suc x + k' - 1)"
        using Suc.prems(5) Suc k'' by auto
      from Suc.IH [OF 2 a b c d] 1 m nb show ?thesis by simp
    qed
  qed
qed

subsection \<open>The window before the first tick\<close>

lemma nic_init_fresh: "nic_init nd nic w = Inr w' \<Longrightarrow> fresh t w \<Longrightarrow> fresh t w'"
  by (auto simp: nic_init_def Let_def pbind_Inr_iff fresh_def split: option.splits if_splits)

lemma port_init_fresh: "port_init out p w = Inr w' \<Longrightarrow> fresh t w \<Longrightarrow> fresh t w'"
  by (auto simp: port_init_def fresh_def)

lemma iops_init_fresh: "iops_init ds md w = Inr w' \<Longrightarrow> fresh t w \<Longrightarrow> fresh t w'"
  by (auto simp: iops_init_def Let_def pbind_Inr_iff fresh_def split: option.splits)

lemma open_window_fresh:
  assumes "open_window cfg ie = Inr w0"
  shows "fresh (time0 ie) w0"
proof -
  from assms obtain nd w1 w2 ds where
    1: "for_each (nic_init nd) (network_interfaces_array cfg ie) (empty_window (time0 ie)) = Inr w1"
    and 2: "(if CONNECTION_PORTS cfg \<noteq> []
             then for_each (port_init (run_command (netstat0 ie))) (connection_ports_array cfg) w1
             else Inr w1) = Inr w2"
    and 3: "for_each (iops_init ds) v_disks w2 = Inr w0"
    unfolding open_window_def pbind_Inr_iff by blast
  have "fresh (time0 ie) (empty_window (time0 ie))"
    by (simp add: fresh_def empty_window_def)
  with 1 have "fresh (time0 ie) w1"
    by (rule for_each_invariant [rotated]) (rule nic_init_fresh)
  with 2 have "fresh (time0 ie) w2"
    by (auto split: if_splits elim: for_each_invariant [rotated] intro: port_init_fresh)
  with 3 show ?thesis
    by (rule for_each_invariant [rotated]) (rule iops_init_fresh)
qed




subsection \<open>The closed window\<close>

lemma map_r_Inr:
  "map_r f xs = Inr ys \<Longrightarrow> list_all2 (\<lambda>x y. f x = Inr y) xs ys"
proof (induction xs arbitrary: ys)
  case Nil
  then show ?case by simp
next
  case (Cons x xs)
  then show ?case by (auto simp: pbind_Inr_iff)
qed

lemma list_all2_map_eq:
  "list_all2 (\<lambda>x y. P x y) xs ys \<Longrightarrow> (\<And>x y. x \<in> set xs \<Longrightarrow> P x y \<Longrightarrow> y = F x) \<Longrightarrow> ys = map F xs"
  by (induction xs ys rule: list_all2_induct) auto

text \<open>The sums of a run of \<open>k\<close> ticks from tick 1 on, read off the window it leaves.\<close>

lemma sum_ticks_reindex:
  "(\<Sum>i<k. f (1 + i) (projr (run_ticks cfg nics env 1 i w0)))
     = (\<Sum>j = 1..k. f j (window_before cfg nics env w0 j))"
  by (simp add: sum.atLeast1_atMost_eq window_before_def)

lemma run_ticks_totals:
  assumes "run_ticks cfg nics env 1 k w0 = Inr w"
  shows "t_cpu w = t_cpu w0 + (\<Sum>j = 1..k. tick_cpu (env j))"
    and "t_iow w = t_iow w0 + (\<Sum>j = 1..k. tick_iow (env j))"
    and "t_ram w = t_ram w0 + (\<Sum>j = 1..k. tick_ram (env j))"
    and "t_time_diff w = t_time_diff w0
           + (\<Sum>j = 1..k. tick_elapsed (env j) (window_before cfg nics env w0 j))"
    and "iops_read w = iops_read w0" and "iops_write w = iops_write w0"
proof -
  have "True \<and> t_cpu w = t_cpu w0 + (\<Sum>i<k. tick_cpu (env (1 + i)))"
    by (rule run_ticks_accum [where I = "\<lambda>_. True" and d = "\<lambda>te _. tick_cpu te", OF _ _ _ _ assms])
       (auto simp: tick_cpu_def dest!: tick_scalars)
  then show "t_cpu w = t_cpu w0 + (\<Sum>j = 1..k. tick_cpu (env j))"
    by (simp add: sum.atLeast1_atMost_eq)
  have "True \<and> t_iow w = t_iow w0 + (\<Sum>i<k. tick_iow (env (1 + i)))"
    by (rule run_ticks_accum [where I = "\<lambda>_. True" and d = "\<lambda>te _. tick_iow te", OF _ _ _ _ assms])
       (auto simp: tick_iow_def dest!: tick_scalars)
  then show "t_iow w = t_iow w0 + (\<Sum>j = 1..k. tick_iow (env j))"
    by (simp add: sum.atLeast1_atMost_eq)
  have "True \<and> t_ram w = t_ram w0 + (\<Sum>i<k. tick_ram (env (1 + i)))"
    by (rule run_ticks_accum [where I = "\<lambda>_. True" and d = "\<lambda>te _. tick_ram te", OF _ _ _ _ assms])
       (auto simp: tick_ram_def dest!: tick_scalars)
  then show "t_ram w = t_ram w0 + (\<Sum>j = 1..k. tick_ram (env j))"
    by (simp add: sum.atLeast1_atMost_eq)
  have "True \<and> t_time_diff w = t_time_diff w0
      + (\<Sum>i<k. tick_elapsed (env (1 + i)) (projr (run_ticks cfg nics env 1 i w0)))"
    by (rule run_ticks_accum [where I = "\<lambda>_. True" and d = tick_elapsed, OF _ _ _ _ assms])
       (auto simp: tick_elapsed_def dest!: tick_scalars)
  then show "t_time_diff w = t_time_diff w0
           + (\<Sum>j = 1..k. tick_elapsed (env j) (window_before cfg nics env w0 j))"
    by (simp only: sum_ticks_reindex [where f = "\<lambda>j. tick_elapsed (env j)"]) 
  have "True \<and> iops_read w = iops_read w0"
    using assms
  proof (induction k arbitrary: w rule: nat.induct)
    case zero
    then show ?case by simp
  next
    case (Suc k)
    from Suc.prems obtain v where v: "run_ticks cfg nics env 1 k w0 = Inr v"
      and t: "tick cfg nics (env (1 + k)) (v\<lparr> X := Some (1 + k) \<rparr>) = Inr w"
      by (auto simp: run_ticks_snoc pbind_Inr_iff simp del: run_ticks.simps)
    from Suc.IH [OF v] tick_scalars [OF t] show ?case by auto
  qed
  then show "iops_read w = iops_read w0" by simp
  have "True \<and> iops_write w = iops_write w0"
    using assms
  proof (induction k arbitrary: w rule: nat.induct)
    case zero
    then show ?case by simp
  next
    case (Suc k)
    from Suc.prems obtain v where v: "run_ticks cfg nics env 1 k w0 = Inr v"
      and t: "tick cfg nics (env (1 + k)) (v\<lparr> X := Some (1 + k) \<rparr>) = Inr w"
      by (auto simp: run_ticks_snoc pbind_Inr_iff simp del: run_ticks.simps)
    from Suc.IH [OF v] tick_scalars [OF t] show ?case by auto
  qed
  then show "iops_write w = iops_write w0" by simp
qed
lemma run_ticks_nic_dom:
  "run_ticks cfg nics env x k w = Inr w' \<Longrightarrow>
     (t_rx w' nic = None) = (t_rx w nic = None) \<and> (t_tx w' nic = None) = (t_tx w nic = None)"
proof (induction k arbitrary: x w)
  case 0
  then show ?case by simp
next
  case (Suc k)
  from Suc.prems obtain w1 where 1: "tick cfg nics (env x) (w\<lparr> X := Some x \<rparr>) = Inr w1"
    and 2: "run_ticks cfg nics env (Suc x) k w1 = Inr w'"
    by (auto simp: pbind_Inr_iff)
  have "(t_rx w1 nic = None) = (t_rx w nic = None) \<and> (t_tx w1 nic = None) = (t_tx w nic = None)"
  proof (cases "nic \<in> set nics")
    case True
    from tick_nic [OF 1 True] show ?thesis by auto
  next
    case False
    from tick_nic_other [OF 1 False] show ?thesis by simp
  qed
  with Suc.IH [OF 2] show ?case by simp
qed

lemma run_ticks_nic_totals:
  assumes "run_ticks cfg nics env 1 k w0 = Inr w" and "nic \<in> set nics"
  shows "t_rx w0 nic = Some s \<Longrightarrow>
           t_rx w nic = Some (s + (\<Sum>j = 1..k. rx_rate (env j) (window_before cfg nics env w0 j) nic))"
    and "t_tx w0 nic = Some u \<Longrightarrow>
           t_tx w nic = Some (u + (\<Sum>j = 1..k. tx_rate (env j) (window_before cfg nics env w0 j) nic))"
proof -
  assume s: "t_rx w0 nic = Some s"
  have "t_rx w nic \<noteq> None \<and> the (t_rx w nic) = the (t_rx w0 nic)
      + (\<Sum>i<k. rx_rate (env (1 + i)) (projr (run_ticks cfg nics env 1 i w0)) nic)"
  proof (rule run_ticks_accum [where I = "\<lambda>v. t_rx v nic \<noteq> None" and g = "\<lambda>v. the (t_rx v nic)"
        and d = "\<lambda>te v. rx_rate te v nic", OF _ _ _ _ assms(1)])
    fix te v v' assume "tick cfg nics te v = Inr v'" and "t_rx v nic \<noteq> None"
    with tick_nic [OF _ assms(2)]
    show "t_rx v' nic \<noteq> None \<and> the (t_rx v' nic) = the (t_rx v nic) + rx_rate te v nic"
      by fastforce
  qed (simp_all add: s rx_rate_def split: option.splits)
  from this [unfolded sum_ticks_reindex [where f = "\<lambda>j v. rx_rate (env j) v nic"]]
  show "t_rx w nic = Some (s + (\<Sum>j = 1..k. rx_rate (env j) (window_before cfg nics env w0 j) nic))"
    by (auto simp: s)
next
  assume u: "t_tx w0 nic = Some u"
  have "t_tx w nic \<noteq> None \<and> the (t_tx w nic) = the (t_tx w0 nic)
      + (\<Sum>i<k. tx_rate (env (1 + i)) (projr (run_ticks cfg nics env 1 i w0)) nic)"
  proof (rule run_ticks_accum [where I = "\<lambda>v. t_tx v nic \<noteq> None" and g = "\<lambda>v. the (t_tx v nic)"
        and d = "\<lambda>te v. tx_rate te v nic", OF _ _ _ _ assms(1)])
    fix te v v' assume "tick cfg nics te v = Inr v'" and "t_tx v nic \<noteq> None"
    with tick_nic [OF _ assms(2)]
    show "t_tx v' nic \<noteq> None \<and> the (t_tx v' nic) = the (t_tx v nic) + tx_rate te v nic"
      by fastforce
  qed (simp_all add: u tx_rate_def split: option.splits)
  from this [unfolded sum_ticks_reindex [where f = "\<lambda>j v. tx_rate (env j) v nic"]]
  show "t_tx w nic = Some (u + (\<Sum>j = 1..k. tx_rate (env j) (window_before cfg nics env w0 j) nic))"
    by (auto simp: u)
qed

text \<open>From a report back to the window it was assembled from, and to the run of ticks
  that closed the window.\<close>

lemma agent_run:
  assumes "agent cfg ie env fe = Inr r"
  shows "\<exists>rt M w0 w N.
           run_times cfg = Inr rt \<and> minute_now (minute0 ie) = Inr M
         \<and> open_window cfg ie = Inr w0
         \<and> run_ticks cfg (network_interfaces_array cfg ie) env 1 N w0 = Inr w
         \<and> assemble cfg (network_interfaces_array cfg ie) fe w = Inr r
         \<and> 1 \<le> N \<and> N \<le> nat rt \<and> X w = Some N \<and> ticks r = N
         \<and> (\<forall>j. 1 \<le> j \<and> j < N \<longrightarrow> \<not> breaks M env j)
         \<and> (N < nat rt \<longrightarrow> breaks M env N)"
proof -
  let ?nics = "network_interfaces_array cfg ie"
  from assms obtain w where sw: "sample_window cfg ie env = Inr w"
    and as: "assemble cfg ?nics fe w = Inr r"
    by (auto simp: agent_def pbind_Inr_iff)
  from sw obtain rt M w0 where rt: "run_times cfg = Inr rt"
    and M: "minute_now (minute0 ie) = Inr M" and w0: "open_window cfg ie = Inr w0"
    and cl: "collect_loop cfg ?nics M env (nat rt) 1 w0 = Inr w"
    by (auto simp: sample_window_def pbind_Inr_iff split: if_splits)
  from collect_loop_run_ticks [OF cl] obtain k where k: "k \<le> nat rt"
    and rk: "run_ticks cfg ?nics env 1 k w0 = Inr w"
    and nb: "\<forall>i. Suc i < k \<longrightarrow> \<not> breaks M env (1 + i)"
    and br: "k < nat rt \<longrightarrow> breaks M env (1 + k - 1)"
    by blast
  from as have X: "get_X w = Inr (ticks r)"
    by (auto simp: assemble_def pbind_Inr_iff)
  from open_window_fresh [OF w0] have "X w0 = None" by (simp add: fresh_def)
  with run_ticks_X [OF rk] X have k0: "k \<noteq> 0" and Xw: "X w = Some k" and tr: "ticks r = k"
    by (auto simp: get_X_def split: if_splits option.splits)
  have "\<forall>j. 1 \<le> j \<and> j < k \<longrightarrow> \<not> breaks M env j"
  proof (intro allI impI)
    fix j assume j: "1 \<le> j \<and> j < k"
    then obtain i where "j = Suc i" by (cases j) auto
    with nb j show "\<not> breaks M env j" by auto
  qed
  with rt M w0 rk as k k0 Xw tr br show ?thesis
    by (intro exI [of _ rt] exI [of _ M] exI [of _ w0] exI [of _ w] exI [of _ k]) auto
qed

lemma assemble_fields:
  assumes "assemble cfg nics fe w = Inr r"
  shows "cpu_avg w = Inr (r_cpu_avg r)" and "iow_avg w = Inr (r_iow_avg r)"
    and "ram_avg w = Inr (r_ram_avg r)" and "map_r (nic_avg w) nics = Inr (r_nics r)"
    and "(if CONNECTION_PORTS cfg \<noteq> [] then map_r (con_avg w) (connection_ports_array cfg)
          else Inr []) = Inr (r_conns r)"
    and "\<exists>ds iops. diskstats1 fe = Some ds \<and> map_r (iops_entry ds w) v_disks = Inr iops
           \<and> r_iops r = concat iops"
    and "swap_usage (run_command (swap_size_out fe)) (run_command (swap_free_out fe))
           = Inr (r_swap_usage r)"
  using assms
  by (auto simp: assemble_def pbind_Inr_iff read_file_def split: option.splits)

lemma averages_of_window:
  assumes "X w = Some N" and "N \<noteq> 0"
  shows "cpu_avg w = Inr (of_int (t_cpu w) / of_nat N)"
    and "iow_avg w = Inr (of_int (t_iow w) / of_nat N)"
    and "ram_avg w = Inr (t_ram w / of_nat N)"
    and "nic_avg w nic = Inr y \<Longrightarrow>
           \<exists>sr st. t_rx w nic = Some sr \<and> t_tx w nic = Some st
             \<and> y = (nic, py_trunc (of_int sr / of_nat N), py_trunc (of_int st / of_nat N))"
    and "con_avg w p = Inr z \<Longrightarrow>
           \<exists>c. connections w p = Some c \<and> z = (p, py_trunc (of_int c / of_nat N))"
  using assms
  by (auto simp: cpu_avg_def iow_avg_def ram_avg_def nic_avg_def con_avg_def get_X_def
        py_truediv_def py_getitem_def pbind_Inr_iff split: option.splits)

text \<open>The interface records of a report, from the run of ticks behind it.\<close>

lemma nics_of_run:
  assumes w0: "open_window cfg ie = Inr w0" and run: "run_ticks cfg nics env 1 N w0 = Inr w"
    and X: "X w = Some N" and N0: "N \<noteq> 0" and ns: "map_r (nic_avg w) nics = Inr ns"
  shows "ns =
     map (\<lambda>nic.
           (nic,
            py_trunc (of_int (\<Sum>j = 1..N. rx_rate (env j) (window_before cfg nics env w0 j) nic)
              / of_nat N),
            py_trunc (of_int (\<Sum>j = 1..N. tx_rate (env j) (window_before cfg nics env w0 j) nic)
              / of_nat N)))
       nics"
proof (rule list_all2_map_eq [OF map_r_Inr [OF ns]])
  fix nic y assume nic: "nic \<in> set nics" and y: "nic_avg w nic = Inr y"
  from open_window_fresh [OF w0] have fr: "fresh (time0 ie) w0" .
  from averages_of_window(4) [OF X N0 y] obtain sr st where
    sr: "t_rx w nic = Some sr" and st: "t_tx w nic = Some st"
    and yy: "y = (nic, py_trunc (of_int sr / of_nat N), py_trunc (of_int st / of_nat N))"
    by blast
  from run_ticks_nic_dom [OF run, of nic] sr st
  obtain s0 u0 where s0: "t_rx w0 nic = Some s0" and u0: "t_tx w0 nic = Some u0"
    by auto
  with fr have z: "s0 = 0" "u0 = 0" by (auto simp: fresh_def)
  from run_ticks_nic_totals [OF run nic] s0 u0 z sr st yy
  show "y =
     (nic,
      py_trunc (of_int (\<Sum>j = 1..N. rx_rate (env j) (window_before cfg nics env w0 j) nic)
        / of_nat N),
      py_trunc (of_int (\<Sum>j = 1..N. tx_rate (env j) (window_before cfg nics env w0 j) nic)
        / of_nat N))"
    by simp
qed

subsection \<open>Disk readings\<close>

lemma nic_init_iops:
  "nic_init nd nic w = Inr w' \<Longrightarrow> iops_read w' = iops_read w \<and> iops_write w' = iops_write w"
  by (auto simp: nic_init_def Let_def pbind_Inr_iff split: option.splits)

lemma port_init_iops:
  "port_init out p w = Inr w' \<Longrightarrow> iops_read w' = iops_read w \<and> iops_write w' = iops_write w"
  by (auto simp: port_init_def)

lemma iops_init_reading:
  assumes "iops_init ds md w = Inr w'"
  shows "iops_read w' = (iops_read w)(fst md := (case disk_reading ds (snd md) 5 of
            None \<Rightarrow> iops_read w (fst md) | Some v \<Rightarrow> Some v))"
    and "iops_write w' = (iops_write w)(fst md := (case disk_reading ds (snd md) 9 of
            None \<Rightarrow> iops_write w (fst md) | Some v \<Rightarrow> Some v))"
  using assms
  by (auto simp: iops_init_def disk_reading_def Let_def pbind_Inr_iff split: option.splits)

text \<open>The readings taken before the first tick.\<close>

lemma open_window_iops:
  assumes "open_window cfg ie = Inr w0"
  shows "\<exists>ds0. diskstats0 ie = Some ds0
          \<and> (\<forall>md \<in> set v_disks. iops_read w0 (fst md) = disk_reading ds0 (snd md) 5
                \<and> iops_write w0 (fst md) = disk_reading ds0 (snd md) 9)"
proof -
  from assms obtain nd w1 w2 ds where
    1: "for_each (nic_init nd) (network_interfaces_array cfg ie) (empty_window (time0 ie)) = Inr w1"
    and 2: "(if CONNECTION_PORTS cfg \<noteq> []
             then for_each (port_init (run_command (netstat0 ie))) (connection_ports_array cfg) w1
             else Inr w1) = Inr w2"
    and ds: "read_file (diskstats0 ie) = Inr ds"
    and 3: "for_each (iops_init ds) v_disks w2 = Inr w0"
    unfolding open_window_def pbind_Inr_iff by blast
  let ?P = "\<lambda>v. iops_read v = Map.empty \<and> iops_write v = Map.empty"
  have "?P (empty_window (time0 ie))" by (simp add: empty_window_def)
  with 1 have "?P w1"
    by (rule for_each_invariant [where P = ?P, rotated]) (auto dest: nic_init_iops)
  with 2 have e: "?P w2"
    by (auto split: if_splits
          dest!: for_each_invariant [where P = ?P and f = "port_init (run_command (netstat0 ie))", rotated]
          dest: port_init_iops)
  from 3 obtain wa where a: "iops_init ds (''/'', ''sda1'') w2 = Inr wa"
    and b: "iops_init ds (''/volume1'', ''sda3'') wa = Inr w0"
    by (auto simp: v_disks_def pbind_Inr_iff)
  from iops_init_reading [OF a] iops_init_reading [OF b] e
  have "\<forall>md \<in> set v_disks. iops_read w0 (fst md) = disk_reading ds (snd md) 5
                \<and> iops_write w0 (fst md) = disk_reading ds (snd md) 9"
    by (auto simp: v_disks_def split: option.splits)
  moreover from ds have "diskstats0 ie = Some ds"
    by (simp add: read_file_def split: option.splits)
  ultimately show ?thesis by blast
qed

lemma iops_entry_rate:
  assumes "iops_entry ds1 w md = Inr es"
    and "iops_read w (fst md) = disk_reading ds0 (snd md) 5"
    and "iops_write w (fst md) = disk_reading ds0 (snd md) 9"
  shows "es = (case find_line (snd md) (py_split_on newline ds1) of
                 None \<Rightarrow> []
               | Some line \<Rightarrow>
                   [(fst md, whole_window_rate ds0 ds1 (snd md) 5 (t_time_diff w),
                     whole_window_rate ds0 ds1 (snd md) 9 (t_time_diff w))])"
    and "find_line (snd md) (py_split_on newline ds1) \<noteq> None \<Longrightarrow> t_time_diff w \<noteq> 0"
  using assms
  by (auto simp: iops_entry_def whole_window_rate_def disk_reading_def Let_def pbind_Inr_iff
        py_getitem_def py_truediv_def split: option.splits if_splits)


section \<open>Evaluation of the library functions on the example inputs\<close>

lemmas py_int_eval = py_int_def int_isspace_def is_digit_def digit_val_def

lemma run_command_ex_ip_out: "run_command (Some ex_ip_out) = ''eth0''"
  by (simp add: ex_ip_out_def run_command_def py_strip_def py_isspace_def)

lemma run_command_ex_vmstat_out: "run_command (Some ex_vmstat_out) = ''1  0      0 300000 100000 200000    0    0     5    10  100  200  3  1 95  1  0''"
  by (simp add: ex_vmstat_out_def run_command_def py_strip_def py_isspace_def)

lemma run_command_ex_meminfo_out: "run_command (Some ex_meminfo_out) = ''1000000''"
  by (simp add: ex_meminfo_out_def run_command_def py_strip_def py_isspace_def)

lemma run_command_ex_swap_size_out: "run_command (Some ex_swap_size_out) = ''2097148''"
  by (simp add: ex_swap_size_out_def run_command_def py_strip_def py_isspace_def)

lemma run_command_ex_swap_free_out: "run_command (Some ex_swap_free_out) = ''1048574''"
  by (simp add: ex_swap_free_out_def run_command_def py_strip_def py_isspace_def)

lemma run_command_ex_netstat_out: "run_command (Some ex_netstat_out) = ''(w/o\<newline>Local\<newline>10.0.0.5:80\<newline>10.0.0.5:80\<newline>10.0.0.5:22''"
  by (simp add: ex_netstat_out_def run_command_def py_strip_def py_isspace_def)

lemma run_command_2: "run_command (Some ''2\<newline>'') = ''2''"
  by (simp add: run_command_def py_strip_def py_isspace_def)

lemma run_command_0: "run_command (Some ''0\<newline>'') = ''0''"
  by (simp add: run_command_def py_strip_def py_isspace_def)

lemma b64encode_ssh: "b64encode ''ssh'' = ''c3No''"
  by (simp add: b64_char_def b64_alphabet_def)

lemma py_split_vmstat: "py_split ''1  0      0 300000 100000 200000    0    0     5    10  100  200  3  1 95  1  0'' = [''1'', ''0'', ''0'', ''300000'', ''100000'', ''200000'', ''0'', ''0'', ''5'', ''10'', ''100'', ''200'', ''3'', ''1'', ''95'', ''1'', ''0'']"
  by (simp add: py_split_def py_isspace_def)

lemma lines_ex_net_dev0:
  "py_split_on newline ex_net_dev0 = [''Inter-|   Receive  |  Transmit'', '' face |bytes packets errs drop fifo frame compressed multicast|bytes packets errs drop fifo colls carrier compressed'', ''    lo: 500 5 0 0 0 0 0 0 500 5 0 0 0 0 0 0'', ''  eth0: 1000 10 0 0 0 0 0 0 2000 20 0 0 0 0 0 0'', []]"
  by (simp add: ex_net_dev0_def py_split_on_def newline_def)

lemma find_line_ex_net_dev0_eth0:
  "find_line ''eth0:'' (py_split_on newline ex_net_dev0) = Some ''  eth0: 1000 10 0 0 0 0 0 0 2000 20 0 0 0 0 0 0''"
  by (simp add: lines_ex_net_dev0)

lemma lines_ex_net_dev1:
  "py_split_on newline ex_net_dev1 = [''Inter-|   Receive  |  Transmit'', '' face |bytes packets errs drop fifo frame compressed multicast|bytes packets errs drop fifo colls carrier compressed'', ''    lo: 500 5 0 0 0 0 0 0 500 5 0 0 0 0 0 0'', ''  eth0: 1500 10 0 0 0 0 0 0 2600 20 0 0 0 0 0 0'', []]"
  by (simp add: ex_net_dev1_def py_split_on_def newline_def)

lemma find_line_ex_net_dev1_eth0:
  "find_line ''eth0:'' (py_split_on newline ex_net_dev1) = Some ''  eth0: 1500 10 0 0 0 0 0 0 2600 20 0 0 0 0 0 0''"
  by (simp add: lines_ex_net_dev1)

lemma lines_ex_diskstats0:
  "py_split_on newline ex_diskstats0 = [''   8       0 sda 900 0 112000 0 700 0 96000 0 0 0 0'', ''   8       1 sda1 500 0 64000 0 300 0 48000 0 0 0 0'', ''   8       3 sda3 400 0 48000 0 400 0 48000 0 0 0 0'', []]"
  by (simp add: ex_diskstats0_def py_split_on_def newline_def)

lemma find_line_ex_diskstats0_sda1:
  "find_line ''sda1'' (py_split_on newline ex_diskstats0) = Some ''   8       1 sda1 500 0 64000 0 300 0 48000 0 0 0 0''"
  by (simp add: lines_ex_diskstats0)

lemma find_line_ex_diskstats0_sda3:
  "find_line ''sda3'' (py_split_on newline ex_diskstats0) = Some ''   8       3 sda3 400 0 48000 0 400 0 48000 0 0 0 0''"
  by (simp add: lines_ex_diskstats0)

lemma lines_ex_diskstats1:
  "py_split_on newline ex_diskstats1 = [''   8       0 sda 900 0 112000 0 700 0 96000 0 0 0 0'', ''   8       1 sda1 500 0 64012 0 300 0 48024 0 0 0 0'', ''   8       3 sda3 400 0 48003 0 400 0 48000 0 0 0 0'', []]"
  by (simp add: ex_diskstats1_def py_split_on_def newline_def)

lemma find_line_ex_diskstats1_sda1:
  "find_line ''sda1'' (py_split_on newline ex_diskstats1) = Some ''   8       1 sda1 500 0 64012 0 300 0 48024 0 0 0 0''"
  by (simp add: lines_ex_diskstats1)

lemma find_line_ex_diskstats1_sda3:
  "find_line ''sda3'' (py_split_on newline ex_diskstats1) = Some ''   8       3 sda3 400 0 48003 0 400 0 48000 0 0 0 0''"
  by (simp add: lines_ex_diskstats1)

lemma py_split_ex_net_dev0_eth0:
  "py_split ''  eth0: 1000 10 0 0 0 0 0 0 2000 20 0 0 0 0 0 0'' = [''eth0:'', ''1000'', ''10'', ''0'', ''0'', ''0'', ''0'', ''0'', ''0'', ''2000'', ''20'', ''0'', ''0'', ''0'', ''0'', ''0'', ''0'']"
  by (simp add: py_split_def py_isspace_def)

lemma py_split_ex_net_dev1_eth0:
  "py_split ''  eth0: 1500 10 0 0 0 0 0 0 2600 20 0 0 0 0 0 0'' = [''eth0:'', ''1500'', ''10'', ''0'', ''0'', ''0'', ''0'', ''0'', ''0'', ''2600'', ''20'', ''0'', ''0'', ''0'', ''0'', ''0'', ''0'']"
  by (simp add: py_split_def py_isspace_def)

lemma py_split_ex_diskstats0_sda1:
  "py_split ''   8       1 sda1 500 0 64000 0 300 0 48000 0 0 0 0'' = [''8'', ''1'', ''sda1'', ''500'', ''0'', ''64000'', ''0'', ''300'', ''0'', ''48000'', ''0'', ''0'', ''0'', ''0'']"
  by (simp add: py_split_def py_isspace_def)

lemma py_split_ex_diskstats0_sda3:
  "py_split ''   8       3 sda3 400 0 48000 0 400 0 48000 0 0 0 0'' = [''8'', ''3'', ''sda3'', ''400'', ''0'', ''48000'', ''0'', ''400'', ''0'', ''48000'', ''0'', ''0'', ''0'', ''0'']"
  by (simp add: py_split_def py_isspace_def)

lemma py_split_ex_diskstats1_sda1:
  "py_split ''   8       1 sda1 500 0 64012 0 300 0 48024 0 0 0 0'' = [''8'', ''1'', ''sda1'', ''500'', ''0'', ''64012'', ''0'', ''300'', ''0'', ''48024'', ''0'', ''0'', ''0'', ''0'']"
  by (simp add: py_split_def py_isspace_def)

lemma py_split_ex_diskstats1_sda3:
  "py_split ''   8       3 sda3 400 0 48003 0 400 0 48000 0 0 0 0'' = [''8'', ''3'', ''sda3'', ''400'', ''0'', ''48003'', ''0'', ''400'', ''0'', ''48000'', ''0'', ''0'', ''0'', ''0'']"
  by (simp add: py_split_def py_isspace_def)

lemma py_int_0: "py_int ''0'' = Inr 0"
  by (simp add: py_int_eval)

lemma py_int_1: "py_int ''1'' = Inr 1"
  by (simp add: py_int_eval)

lemma py_int_2: "py_int ''2'' = Inr 2"
  by (simp add: py_int_eval)

lemma py_int_95: "py_int ''95'' = Inr 95"
  by (simp add: py_int_eval)

lemma py_int_1000: "py_int ''1000'' = Inr 1000"
  by (simp add: py_int_eval)

lemma py_int_1500: "py_int ''1500'' = Inr 1500"
  by (simp add: py_int_eval)

lemma py_int_2000: "py_int ''2000'' = Inr 2000"
  by (simp add: py_int_eval)

lemma py_int_2600: "py_int ''2600'' = Inr 2600"
  by (simp add: py_int_eval)

lemma py_int_48000: "py_int ''48000'' = Inr 48000"
  by (simp add: py_int_eval)

lemma py_int_48003: "py_int ''48003'' = Inr 48003"
  by (simp add: py_int_eval)

lemma py_int_48024: "py_int ''48024'' = Inr 48024"
  by (simp add: py_int_eval)

lemma py_int_64000: "py_int ''64000'' = Inr 64000"
  by (simp add: py_int_eval)

lemma py_int_64012: "py_int ''64012'' = Inr 64012"
  by (simp add: py_int_eval)

lemma py_int_100000: "py_int ''100000'' = Inr 100000"
  by (simp add: py_int_eval)

lemma py_int_200000: "py_int ''200000'' = Inr 200000"
  by (simp add: py_int_eval)

lemma py_int_300000: "py_int ''300000'' = Inr 300000"
  by (simp add: py_int_eval)

lemma py_int_1000000: "py_int ''1000000'' = Inr 1000000"
  by (simp add: py_int_eval)

lemma py_int_1048574: "py_int ''1048574'' = Inr 1048574"
  by (simp add: py_int_eval)

lemma py_int_2097148: "py_int ''2097148'' = Inr 2097148"
  by (simp add: py_int_eval)

lemmas py_int_examples = py_int_0 py_int_1 py_int_2 py_int_95 py_int_1000 py_int_1500 py_int_2000 py_int_2600 py_int_48000 py_int_48003 py_int_48024 py_int_64000 py_int_64012 py_int_100000 py_int_200000 py_int_300000 py_int_1000000 py_int_1048574 py_int_2097148

lemma port_count_80: "port_count ''(w/o\<newline>Local\<newline>10.0.0.5:80\<newline>10.0.0.5:80\<newline>10.0.0.5:22'' ''80'' = 2"
  by (simp add: port_count_def newline_def)

lemma py_split_on_eth0: "py_split_on newline ''eth0'' = [''eth0'']"
  by (simp add: py_split_on_def newline_def)

lemma py_split_on_80: "py_split_on (CHR '','') ''80'' = [''80'']"
  by (simp add: py_split_on_def)

section \<open>Evaluation of the model on the example runs\<close>

lemma default_config_simps:
  "NETWORK_INTERFACES default_config = []" "CONNECTION_PORTS default_config = []"
  "RUNTIME default_config = 60" "COLLECT_EVERY_X_SECONDS default_config = 3"
  by (simp_all add: default_config_def)

lemma ex_ie_simps:
  "time0 ex_ie = 0" "minute0 ex_ie = ''07''" "log_remove_ok ex_ie"
  "ip_out ex_ie = Some ex_ip_out" "net_dev0 ex_ie = Some ex_net_dev0"
  "netstat0 ex_ie = Some ex_netstat_out" "diskstats0 ex_ie = Some ex_diskstats0"
  by (simp_all add: ex_ie_def)

lemma ex_tick_simps:
  "vmstat_out (ex_tick t m) = Some ex_vmstat_out" "meminfo_out (ex_tick t m) = Some ex_meminfo_out"
  "net_dev (ex_tick t m) = Some ex_net_dev1" "end_time (ex_tick t m) = t"
  "restart_time (ex_tick t m) = t" "netstat_out (ex_tick t m) = Some ex_netstat_out"
  "minute (ex_tick t m) = m"
  by (simp_all add: ex_tick_def)

lemma ex_fe_simps:
  "diskstats1 ex_fe = Some ex_diskstats1" "swap_size_out ex_fe = Some ex_swap_size_out"
  "swap_free_out ex_fe = Some ex_swap_free_out"
  by (simp_all add: ex_fe_def)

lemma nics_ex: "network_interfaces_array default_config ex_ie = [''eth0'']"
  by (simp add: network_interfaces_array_def default_config_simps ex_ie_simps
        run_command_ex_ip_out py_split_on_eth0)

lemma nic_init_ex:
  "nic_init ex_net_dev0 ''eth0'' w =
     Inr (w\<lparr> a_rx := (a_rx w)(''eth0'' \<mapsto> 1000), a_tx := (a_tx w)(''eth0'' \<mapsto> 2000),
             t_rx := (t_rx w)(''eth0'' \<mapsto> 0), t_tx := (t_tx w)(''eth0'' \<mapsto> 0) \<rparr>)"
  by (simp add: nic_init_def find_line_ex_net_dev0_eth0 py_split_ex_net_dev0_eth0 py_index_def
        py_int_examples)

lemma iops_init_ex1:
  "iops_init ex_diskstats0 (''/'', ''sda1'') w =
     Inr (w\<lparr> iops_read := (iops_read w)(''/'' \<mapsto> 64000),
             iops_write := (iops_write w)(''/'' \<mapsto> 48000) \<rparr>)"
  by (simp add: iops_init_def find_line_ex_diskstats0_sda1 py_split_ex_diskstats0_sda1 py_index_def
        py_int_examples)

lemma iops_init_ex3:
  "iops_init ex_diskstats0 (''/volume1'', ''sda3'') w =
     Inr (w\<lparr> iops_read := (iops_read w)(''/volume1'' \<mapsto> 48000),
             iops_write := (iops_write w)(''/volume1'' \<mapsto> 48000) \<rparr>)"
  by (simp add: iops_init_def find_line_ex_diskstats0_sda3 py_split_ex_diskstats0_sda3 py_index_def
        py_int_examples)

lemma open_window_ex:
  "open_window default_config ex_ie = Inr (ex_window 0 0 1000 2000 0 0 0 None)"
  by (simp add: open_window_def nics_ex ex_ie_simps read_file_def nic_init_ex iops_init_ex1
        iops_init_ex3 v_disks_def empty_window_def ex_window_def default_config_simps)

lemma samples_ex:
  "cpu_sample (vmstat_fields (ex_tick t m)) = Inr 5"
  "iow_sample (vmstat_fields (ex_tick t m)) = Inr 1"
  "ram_sample (vmstat_fields (ex_tick t m)) ''1000000'' = Inr 40"
  by (simp_all add: vmstat_fields_def ex_tick_simps run_command_ex_vmstat_out
        run_command_ex_meminfo_out py_split_vmstat cpu_sample_def iow_sample_def ram_sample_def
        py_index_def py_int_examples py_truediv_def)

lemma nic_update_ex:
  assumes "a_rx w ''eth0'' = Some a" and "t_rx w ''eth0'' = Some s"
    and "a_tx w ''eth0'' = Some b" and "t_tx w ''eth0'' = Some u" and "td \<noteq> 0"
  shows "nic_update ex_net_dev1 td ''eth0'' w =
     Inr (w\<lparr> a_rx := (a_rx w)(''eth0'' \<mapsto> 1500),
             t_rx := (t_rx w)(''eth0'' \<mapsto> s + py_trunc (of_int (1500 - a) / td)),
             a_tx := (a_tx w)(''eth0'' \<mapsto> 2600),
             t_tx := (t_tx w)(''eth0'' \<mapsto> u + py_trunc (of_int (2600 - b) / td)) \<rparr>)"
  using assms
  by (simp add: nic_update_def find_line_ex_net_dev1_eth0 py_split_ex_net_dev1_eth0 py_index_def
        py_int_examples py_getitem_def py_truediv_def)

lemma tick_ex:
  assumes "a_rx w ''eth0'' = Some a" and "t_rx w ''eth0'' = Some s"
    and "a_tx w ''eth0'' = Some b" and "t_tx w ''eth0'' = Some u" and "t \<noteq> start_time w"
  shows "tick default_config [''eth0''] (ex_tick t m) w =
     Inr (w\<lparr> t_cpu := t_cpu w + 5, t_iow := t_iow w + 1, t_ram := t_ram w + 40,
             t_time_diff := t_time_diff w + (t - start_time w), start_time := t,
             a_rx := (a_rx w)(''eth0'' \<mapsto> 1500),
             t_rx := (t_rx w)(''eth0'' \<mapsto> s + py_trunc (of_int (1500 - a) / (t - start_time w))),
             a_tx := (a_tx w)(''eth0'' \<mapsto> 2600),
             t_tx := (t_tx w)(''eth0'' \<mapsto> u + py_trunc (of_int (2600 - b) / (t - start_time w))) \<rparr>)"
proof -
  have v: "py_split (run_command (vmstat_out (ex_tick t m))) = vmstat_fields (ex_tick t m)"
    by (simp add: vmstat_fields_def)
  show ?thesis
    unfolding tick_def v
    using assms
    by (simp add: samples_ex ex_tick_simps run_command_ex_meminfo_out read_file_def nic_update_ex default_config_simps Let_def)
qed

lemma py_trunc_ex: "py_trunc (500 / 3) = 166" "py_trunc 200 = 200"
  by (simp_all add: py_trunc_def floor_eq_iff)

lemma ex_window_X [simp]:
  "(ex_window st td rx tx srx stx n x)\<lparr> X := y \<rparr> = ex_window st td rx tx srx stx n y"
  by (simp add: ex_window_def)

lemma tick_ex_window:
  assumes "t \<noteq> st"
  shows "tick default_config [''eth0''] (ex_tick t m) (ex_window st td rx tx srx stx n x) =
     Inr (ex_window t (td + (t - st)) 1500 2600
            (srx + py_trunc (of_int (1500 - rx) / (t - st)))
            (stx + py_trunc (of_int (2600 - tx) / (t - st))) (Suc n) x)"
  by (subst tick_ex [where a = rx and s = srx and b = tx and u = stx])
     (simp_all add: assms ex_window_def algebra_simps)
lemma minute_now_ex:
  "minute_now ''07'' = Inr 7" "minute_now ''08'' = Inr 8" "minute_now ''59'' = Inr 59"
  "minute_now ''00'' = Inr 0"
  by (simp_all add: minute_now_def py_int_eval)

lemma run_times_default: "run_times default_config = Inr 20"
  by (simp add: run_times_def py_floordiv_def default_config_simps)

lemma ex_env_simps: "ex_env (Suc 0) = ex_tick 3 ''07''" "ex_env (Suc (Suc 0)) = ex_tick 6 ''08''"
  by (simp_all add: ex_env_def)

lemma run_ticks_ex:
  "run_ticks default_config [''eth0''] ex_env 1 2 (ex_window 0 0 1000 2000 0 0 0 None)
     = Inr (ex_window 6 6 1500 2600 166 200 2 (Some 2))"
  by (simp add: numeral_2_eq_2 ex_env_simps tick_ex_window py_trunc_ex)

lemma sample_window_ex:
  "sample_window default_config ex_ie ex_env = Inr (ex_window 6 6 1500 2600 166 200 2 (Some 2))"
proof -
  have "collect_loop default_config [''eth0''] 7 ex_env 20 1 (ex_window 0 0 1000 2000 0 0 0 None)
      = Inr (ex_window 6 6 1500 2600 166 200 2 (Some 2))"
  proof (rule run_ticks_collect_loop [OF run_ticks_ex])
    show "\<forall>i<2. \<exists>MM. minute_now (minute (ex_env (1 + i))) = Inr MM"
      by (simp add: ex_env_def ex_tick_simps minute_now_ex)
    show "\<forall>i. Suc i < 2 \<longrightarrow> \<not> breaks 7 ex_env (1 + i)"
      by (simp add: breaks_def ex_env_def ex_tick_simps minute_now_ex)
    show "(2::nat) < 20 \<longrightarrow> (0::nat) < 2 \<and> breaks 7 ex_env (1 + 2 - 1)"
      by (simp add: breaks_def ex_env_def ex_tick_simps minute_now_ex)
  qed simp
  then show ?thesis
    by (simp add: sample_window_def run_times_default ex_ie_simps minute_now_ex open_window_ex nics_ex)
qed

lemma py_str_ex:
  "py_str 83 = ''83''" "py_str 100 = ''100''" "py_str 1024 = ''1024''" "py_str 2048 = ''2048''"
  "py_str 256 = ''256''" "py_str 0 = ''0''" "py_str 3 = ''3''"
  by (simp_all add: py_str_def char_of_def bit_0)
lemma iops_entry_ex:
  assumes "t_time_diff w = 6"
    and "iops_read w = [''/'' \<mapsto> 64000, ''/volume1'' \<mapsto> 48000]"
    and "iops_write w = [''/'' \<mapsto> 48000, ''/volume1'' \<mapsto> 48000]"
  shows "iops_entry ex_diskstats1 w (''/'', ''sda1'') = Inr [(''/'', 1024, 2048)]"
    and "iops_entry ex_diskstats1 w (''/volume1'', ''sda3'') = Inr [(''/volume1'', 256, 0)]"
  by (simp_all add: iops_entry_def find_line_ex_diskstats1_sda1 find_line_ex_diskstats1_sda3
        py_split_ex_diskstats1_sda1 py_split_ex_diskstats1_sda3 py_index_def py_int_examples
        py_getitem_def py_truediv_def py_trunc_def assms)

lemma swap_usage_ex: "swap_usage ''2097148'' ''1048574'' = Inr 50"
  by (simp add: swap_usage_def py_int_examples py_truediv_def)

lemma assemble_ex:
  "assemble default_config [''eth0''] ex_fe (ex_window 6 6 1500 2600 166 200 2 (Some 2))
     = Inr ex_report"
proof -
  let ?w = "ex_window 6 6 1500 2600 166 200 2 (Some 2)"
  have f: "t_time_diff ?w = 6" "iops_read ?w = [''/'' \<mapsto> 64000, ''/volume1'' \<mapsto> 48000]"
    "iops_write ?w = [''/'' \<mapsto> 48000, ''/volume1'' \<mapsto> 48000]"
    by (simp_all add: ex_window_def)
  have iops: "map_r (iops_entry ex_diskstats1 ?w) v_disks
      = Inr [[(''/'', 1024, 2048)], [(''/volume1'', 256, 0)]]"
    by (simp add: v_disks_def iops_entry_ex [OF f])
  have avgs: "cpu_avg ?w = Inr 5" "iow_avg ?w = Inr 1" "ram_avg ?w = Inr 40"
    "get_X ?w = Inr 2"
    by (simp_all add: cpu_avg_def iow_avg_def ram_avg_def get_X_def ex_window_def py_truediv_def)
  have nic: "nic_avg ?w ''eth0'' = Inr (''eth0'', 83, 100)"
    by (simp add: nic_avg_def get_X_def ex_window_def py_getitem_def py_truediv_def py_trunc_def)
  show ?thesis
    unfolding assemble_def
    by (simp add: ex_fe_simps read_file_def iops avgs nic swap_usage_ex default_config_simps
          run_command_ex_swap_size_out run_command_ex_swap_free_out
          ex_report_def iops_record_def nic_record_def py_str_ex)
qed

lemma agent_ex: "agent default_config ex_ie ex_env ex_fe = Inr ex_report"
  by (simp add: agent_def sample_window_ex nics_ex assemble_ex)
subsection \<open>The run with port 80 watched\<close>

lemma port_config_simps:
  "NETWORK_INTERFACES port_config = []" "CONNECTION_PORTS port_config = ''80''"
  "RUNTIME port_config = 60" "COLLECT_EVERY_X_SECONDS port_config = 3"
  by (simp_all add: port_config_def default_config_def)

lemma ports_ex: "connection_ports_array port_config = [''80'']"
  by (simp add: connection_ports_array_def port_config_simps py_split_on_80)

lemma nics_port: "network_interfaces_array port_config ex_ie = [''eth0'']"
  by (simp add: network_interfaces_array_def port_config_simps ex_ie_simps
        run_command_ex_ip_out py_split_on_eth0)

lemma run_times_port: "run_times port_config = Inr 20"
  by (simp add: run_times_def py_floordiv_def port_config_simps)

lemma pbind_assoc: "pbind (pbind m f) g = pbind m (\<lambda>x. pbind (f x) g)"
  by (cases m) simp_all

lemma tick_with_ports:
  assumes "CONNECTION_PORTS cfg' = []" and "CONNECTION_PORTS cfg \<noteq> []"
  shows "tick cfg nics te w =
     pbind (tick cfg' nics te w)
       (for_each (port_update (run_command (netstat_out te))) (connection_ports_array cfg))"
  using assms by (simp add: tick_def Let_def pbind_assoc)

lemma port_update_ex:
  assumes "connections w ''80'' = Some c"
  shows "port_update ''(w/o\<newline>Local\<newline>10.0.0.5:80\<newline>10.0.0.5:80\<newline>10.0.0.5:22'' ''80'' w
     = Inr (w\<lparr> connections := (connections w)(''80'' \<mapsto> c + 2) \<rparr>)"
  using assms by (simp add: port_update_def py_getitem_def port_count_80)

lemma open_window_port:
  "open_window port_config ex_ie
     = Inr ((ex_window 0 0 1000 2000 0 0 0 None)\<lparr> connections := [''80'' \<mapsto> 2] \<rparr>)"
  by (simp add: open_window_def nics_port ports_ex ex_ie_simps read_file_def nic_init_ex
        port_init_def port_count_80 run_command_ex_netstat_out iops_init_ex1 iops_init_ex3
        v_disks_def empty_window_def ex_window_def port_config_simps)

lemma tick_port_ex:
  assumes "t \<noteq> st"
  shows "tick port_config [''eth0''] (ex_tick t m)
       ((ex_window st td rx tx srx stx n x)\<lparr> connections := [''80'' \<mapsto> c] \<rparr>) =
     Inr ((ex_window t (td + (t - st)) 1500 2600
            (srx + py_trunc (of_int (1500 - rx) / (t - st)))
            (stx + py_trunc (of_int (2600 - tx) / (t - st))) (Suc n) x)
          \<lparr> connections := [''80'' \<mapsto> c + 2] \<rparr>)"
proof -
  let ?w = "(ex_window st td rx tx srx stx n x)\<lparr> connections := [''80'' \<mapsto> c] \<rparr>"
  have w: "a_rx ?w ''eth0'' = Some rx" "t_rx ?w ''eth0'' = Some srx"
    "a_tx ?w ''eth0'' = Some tx" "t_tx ?w ''eth0'' = Some stx" "t \<noteq> start_time ?w"
    using assms by (simp_all add: ex_window_def)
  note t = tick_ex [OF w, of m]
  show ?thesis
    apply (subst tick_with_ports [where cfg' = default_config])
      apply (simp add: default_config_simps)
     apply (simp add: port_config_simps)
    apply (subst t)
    apply (simp add: ports_ex ex_tick_simps run_command_ex_netstat_out port_update_ex
        ex_window_def algebra_simps)
    done
qed

lemma sample_window_port:
  "sample_window port_config ex_ie ex_env
     = Inr ((ex_window 6 6 1500 2600 166 200 2 (Some 2))\<lparr> connections := [''80'' \<mapsto> 6] \<rparr>)"
proof -
  let ?w0 = "(ex_window 0 0 1000 2000 0 0 0 None)\<lparr> connections := [''80'' \<mapsto> 2] \<rparr>"
  let ?w2 = "(ex_window 6 6 1500 2600 166 200 2 (Some 2))\<lparr> connections := [''80'' \<mapsto> 6] \<rparr>"
  have X: "\<And>st td rx tx srx stx n x c y.
      ((ex_window st td rx tx srx stx n x)\<lparr> connections := c \<rparr>)\<lparr> X := y \<rparr>
        = (ex_window st td rx tx srx stx n y)\<lparr> connections := c \<rparr>"
    by (simp add: ex_window_def)
  have rt: "run_ticks port_config [''eth0''] ex_env 1 2 ?w0 = Inr ?w2"
    by (simp add: numeral_2_eq_2 ex_env_simps X tick_port_ex py_trunc_ex)
  have "collect_loop port_config [''eth0''] 7 ex_env 20 1 ?w0 = Inr ?w2"
  proof (rule run_ticks_collect_loop [OF rt])
    show "\<forall>i<2. \<exists>MM. minute_now (minute (ex_env (1 + i))) = Inr MM"
      by (simp add: ex_env_def ex_tick_simps minute_now_ex)
    show "\<forall>i. Suc i < 2 \<longrightarrow> \<not> breaks 7 ex_env (1 + i)"
      by (simp add: breaks_def ex_env_def ex_tick_simps minute_now_ex)
    show "(2::nat) < 20 \<longrightarrow> (0::nat) < 2 \<and> breaks 7 ex_env (1 + 2 - 1)"
      by (simp add: breaks_def ex_env_def ex_tick_simps minute_now_ex)
  qed simp
  then show ?thesis
    by (simp add: sample_window_def run_times_port ex_ie_simps minute_now_ex open_window_port
          nics_port)
qed



section \<open>Averages\<close>

text \<open>
  Claim C1. Whenever the script gets as far as its report, there is a number \<open>N \<ge> 1\<close> of
  ticks that were run: the closed window is the result of exactly \<open>N\<close> ticks on the opened
  window, \<open>N\<close> is the value of \<open>X\<close> after the loop and is at most \<^verbatim>\<open>run_times\<close>. Every
  reported average is the sum, over these \<open>N\<close> ticks, of what each tick sampled, divided
  by \<open>N\<close> (and by nothing else): \<^verbatim>\<open>cpu_avg\<close>, \<^verbatim>\<open>iow_avg\<close> and \<^verbatim>\<open>ram_avg\<close> as quotients,
  \<^verbatim>\<open>rx_avg\<close> and \<^verbatim>\<open>tx_avg\<close> of every interface as the quotient truncated to an integer,
  as line 379 and line 380 have it.
\<close>

theorem averages_divide_by_ticks_run:
  assumes "agent cfg ie env fe = Inr r"
  shows "\<exists>rt w0 N.
           run_times cfg = Inr rt \<and> open_window cfg ie = Inr w0
         \<and> ticks r = N \<and> 1 \<le> N \<and> N \<le> nat rt
         \<and> (\<exists>w. run_ticks cfg (network_interfaces_array cfg ie) env 1 N w0 = Inr w
                \<and> X w = Some N)
         \<and> r_cpu_avg r = of_int (\<Sum>j = 1..N. tick_cpu (env j)) / of_nat N
         \<and> r_iow_avg r = of_int (\<Sum>j = 1..N. tick_iow (env j)) / of_nat N
         \<and> r_ram_avg r = (\<Sum>j = 1..N. tick_ram (env j)) / of_nat N
         \<and> r_nics r =
             map (\<lambda>nic.
                   (nic,
                    py_trunc (of_int (\<Sum>j = 1..N. rx_rate (env j)
                        (window_before cfg (network_interfaces_array cfg ie) env w0 j) nic)
                      / of_nat N),
                    py_trunc (of_int (\<Sum>j = 1..N. tx_rate (env j)
                        (window_before cfg (network_interfaces_array cfg ie) env w0 j) nic)
                      / of_nat N)))
               (network_interfaces_array cfg ie)"
proof -
  let ?nics = "network_interfaces_array cfg ie"
  from agent_run [OF assms] obtain rt w0 w N where
    rt: "run_times cfg = Inr rt" and w0: "open_window cfg ie = Inr w0"
    and run: "run_ticks cfg ?nics env 1 N w0 = Inr w"
    and as: "assemble cfg ?nics fe w = Inr r"
    and N: "1 \<le> N" "N \<le> nat rt" "X w = Some N" "ticks r = N"
    by blast
  from open_window_fresh [OF w0] have fr: "fresh (time0 ie) w0" .
  note tot = run_ticks_totals [OF run]
  from N have N0: "N \<noteq> 0" by simp
  note avg = averages_of_window [OF N(3) N0]
  note fld = assemble_fields [OF as]
  from fld(1) avg(1) tot(1) fr
  have cpu: "r_cpu_avg r = of_int (\<Sum>j = 1..N. tick_cpu (env j)) / of_nat N"
    by (simp add: fresh_def)
  from fld(2) avg(2) tot(2) fr
  have iow: "r_iow_avg r = of_int (\<Sum>j = 1..N. tick_iow (env j)) / of_nat N"
    by (simp add: fresh_def)
  from fld(3) avg(3) tot(3) fr
  have ram: "r_ram_avg r = (\<Sum>j = 1..N. tick_ram (env j)) / of_nat N"
    by (simp add: fresh_def)
  note nics = nics_of_run [OF w0 run N(3) N0 fld(4)]
  from rt w0 run N cpu iow ram nics show ?thesis by blast
qed

theorem averages_divide_by_ticks_run_witness:
  "agent default_config ex_ie ex_env ex_fe = Inr ex_report
   \<and> run_times default_config = Inr 20 \<and> ticks ex_report = 2
   \<and> r_cpu_avg ex_report = of_int (\<Sum>j = 1..2. tick_cpu (ex_env j)) / 2
   \<and> r_ram_avg ex_report = (\<Sum>j = 1..2. tick_ram (ex_env j)) / 2
   \<and> r_cpu_avg ex_report = 5 \<and> r_ram_avg ex_report = 40
   \<and> r_nics ex_report = [(''eth0'', 83, 100)]"
proof -
  from averages_divide_by_ticks_run [OF agent_ex] obtain N where
    "ticks ex_report = N"
    and "r_cpu_avg ex_report = of_int (\<Sum>j = 1..N. tick_cpu (ex_env j)) / of_nat N"
    and "r_ram_avg ex_report = (\<Sum>j = 1..N. tick_ram (ex_env j)) / of_nat N"
    by blast
  moreover have "ticks ex_report = 2" by (simp add: ex_report_def)
  ultimately have "r_cpu_avg ex_report = of_int (\<Sum>j = 1..2. tick_cpu (ex_env j)) / 2"
    and "r_ram_avg ex_report = (\<Sum>j = 1..2. tick_ram (ex_env j)) / 2"
    by auto
  with agent_ex run_times_default show ?thesis
    by (simp add: ex_report_def)
qed

section \<open>The loop body runs at least once\<close>

text \<open>
  Claim C10. With the settings the script ships with, \<^verbatim>\<open>run_times\<close> is 20. For any
  settings that make \<^verbatim>\<open>run_times\<close> at least 1: whenever the sampling loop ends without an
  exception, \<open>X\<close> is bound to a number between 1 and \<^verbatim>\<open>run_times\<close>, the three averages of
  lines 347 to 356 are quotients by that number, and neither a per-interface nor a
  per-port average raises \<^verbatim>\<open>ZeroDivisionError\<close>; the average of a port that has a
  running count is that count divided by \<open>X\<close>, truncated.
\<close>

theorem at_least_one_tick:
  "run_times default_config = Inr 20
   \<and> (\<forall>cfg rt ie env w.
         run_times cfg = Inr rt \<and> 1 \<le> rt \<and> sample_window cfg ie env = Inr w \<longrightarrow>
         (\<exists>x. X w = Some x \<and> 1 \<le> x \<and> x \<le> nat rt
            \<and> cpu_avg w = Inr (of_int (t_cpu w) / of_nat x)
            \<and> iow_avg w = Inr (of_int (t_iow w) / of_nat x)
            \<and> ram_avg w = Inr (t_ram w / of_nat x)
            \<and> (\<forall>p c. connections w p = Some c \<longrightarrow>
                  con_avg w p = Inr (p, py_trunc (of_int c / of_nat x))))
         \<and> (\<forall>nic. nic_avg w nic \<noteq> Inl ZeroDivisionError)
         \<and> (\<forall>p. con_avg w p \<noteq> Inl ZeroDivisionError))"
proof (intro conjI allI impI)
  show "run_times default_config = Inr 20" by (rule run_times_default)
next
  fix cfg rt ie env w
  assume a: "run_times cfg = Inr rt \<and> 1 \<le> rt \<and> sample_window cfg ie env = Inr w"
  then obtain M w0 where
    cl: "collect_loop cfg (network_interfaces_array cfg ie) M env (nat rt) 1 w0 = Inr w"
    by (auto simp: sample_window_def pbind_Inr_iff split: if_splits)
  from a have "0 < nat rt" by simp
  with collect_loop_run_ticks [OF cl] obtain k where k: "k \<le> nat rt" "0 < k"
    and rk: "run_ticks cfg (network_interfaces_array cfg ie) env 1 k w0 = Inr w"
    by auto
  from run_ticks_X [OF rk] k have X: "X w = Some k" by simp
  from k have k0: "k \<noteq> 0" by simp
  have con: "\<forall>p c. connections w p = Some c \<longrightarrow>
      con_avg w p = Inr (p, py_trunc (of_int c / of_nat k))"
    using X k0 by (simp add: con_avg_def get_X_def py_getitem_def py_truediv_def)
  from averages_of_window(1-3) [OF X k0] X k con
  show "\<exists>x. X w = Some x \<and> 1 \<le> x \<and> x \<le> nat rt
            \<and> cpu_avg w = Inr (of_int (t_cpu w) / of_nat x)
            \<and> iow_avg w = Inr (of_int (t_iow w) / of_nat x)
            \<and> ram_avg w = Inr (t_ram w / of_nat x)
            \<and> (\<forall>p c. connections w p = Some c \<longrightarrow>
                  con_avg w p = Inr (p, py_trunc (of_int c / of_nat x)))"
    by auto
  fix nic
  show "nic_avg w nic \<noteq> Inl ZeroDivisionError"
    using X k0
    by (auto simp: nic_avg_def get_X_def py_getitem_def py_truediv_def split: option.splits)
  show "con_avg w nic \<noteq> Inl ZeroDivisionError"
    using X k0
    by (auto simp: con_avg_def get_X_def py_getitem_def py_truediv_def split: option.splits)
qed

theorem at_least_one_tick_witness:
  "run_times port_config = Inr 20 \<and> (1::int) \<le> 20
   \<and> sample_window port_config ex_ie ex_env
       = Inr ((ex_window 6 6 1500 2600 166 200 2 (Some 2))\<lparr> connections := [''80'' \<mapsto> 6] \<rparr>)
   \<and> X ((ex_window 6 6 1500 2600 166 200 2 (Some 2))\<lparr> connections := [''80'' \<mapsto> 6] \<rparr>) = Some 2
   \<and> cpu_avg ((ex_window 6 6 1500 2600 166 200 2 (Some 2))\<lparr> connections := [''80'' \<mapsto> 6] \<rparr>)
       = Inr 5
   \<and> con_avg ((ex_window 6 6 1500 2600 166 200 2 (Some 2))\<lparr> connections := [''80'' \<mapsto> 6] \<rparr>) ''80''
       = Inr (''80'', 3)
   \<and> nic_avg ((ex_window 6 6 1500 2600 166 200 2 (Some 2))\<lparr> connections := [''80'' \<mapsto> 6] \<rparr>) ''eth0''
       \<noteq> Inl ZeroDivisionError
   \<and> con_avg ((ex_window 6 6 1500 2600 166 200 2 (Some 2))\<lparr> connections := [''80'' \<mapsto> 6] \<rparr>) ''80''
       \<noteq> Inl ZeroDivisionError"
proof -
  let ?w = "(ex_window 6 6 1500 2600 166 200 2 (Some 2))\<lparr> connections := [''80'' \<mapsto> 6] \<rparr>"
  have h: "run_times port_config = Inr 20 \<and> (1::int) \<le> 20
      \<and> sample_window port_config ex_ie ex_env = Inr ?w"
    by (simp add: run_times_port sample_window_port)
  from at_least_one_tick [THEN conjunct2, rule_format, OF h] obtain x where
    x: "X ?w = Some x" and c: "cpu_avg ?w = Inr (of_int (t_cpu ?w) / of_nat x)"
    and p: "\<forall>p c. connections ?w p = Some c \<longrightarrow>
                  con_avg ?w p = Inr (p, py_trunc (of_int c / of_nat x))"
    and n: "nic_avg ?w ''eth0'' \<noteq> Inl ZeroDivisionError"
    and z: "con_avg ?w ''80'' \<noteq> Inl ZeroDivisionError"
    by blast
  have f: "X ?w = Some 2" "t_cpu ?w = 10" "connections ?w ''80'' = Some 6"
    by (simp_all add: ex_window_def)
  from x f have x2: "x = 2" by simp
  from p f(3) have "con_avg ?w ''80'' = Inr (''80'', py_trunc (of_int 6 / of_nat x))" by blast
  then have c80: "con_avg ?w ''80'' = Inr (''80'', 3)"
    by (simp add: x2 py_trunc_def)
  from c have c5: "cpu_avg ?w = Inr 5" by (simp add: x2 f)
  from h f(1) c5 c80 n z show ?thesis by blast
qed

section \<open>A window that crosses the hour\<close>

lemma late_or_bad_same_start:
  "open_window cfg (ie\<lparr> minute0 := m \<rparr>) = open_window cfg ie"
  "network_interfaces_array cfg (ie\<lparr> minute0 := m \<rparr>) = network_interfaces_array cfg ie"
  by (simp_all add: open_window_def network_interfaces_array_def cong: if_cong)

lemma late_ie_simps:
  "minute0 late_ie = ''59''" "log_remove_ok late_ie = True"
  "open_window default_config late_ie = Inr (ex_window 0 0 1000 2000 0 0 0 None)"
  "network_interfaces_array default_config late_ie = [''eth0'']"
  by (simp_all add: late_ie_def late_or_bad_same_start open_window_ex nics_ex ex_ie_simps)

lemma late_env_minute:
  "minute (late_env k) = (if k < 5 then ''59'' else ''00'')"
  by (simp add: late_env_def ex_tick_simps)

lemma tick_late:
  assumes "0 < x"
  shows "tick default_config [''eth0''] (late_env (Suc x))
           (ex_window (3 * of_nat x) td 1500 2600 srx stx n y)
       = Inr (ex_window (3 * of_nat (Suc x)) (td + 3) 1500 2600 srx stx (Suc n) y)"
proof -
  have ne: "3 * of_nat (Suc x) \<noteq> (3 * of_nat x :: rat)" by simp
  have d: "3 * of_nat (Suc x) - (3 * of_nat x :: rat) = 3" by simp
  show ?thesis
    unfolding late_env_def
    by (subst tick_ex_window [OF ne]) (simp add: d del: of_nat_Suc)
qed

lemma run_ticks_late:
  "0 < x \<Longrightarrow>
   run_ticks default_config [''eth0''] late_env (Suc x) k
       (ex_window (3 * of_nat x) td 1500 2600 srx stx n y)
     = Inr (ex_window (3 * of_nat (x + k)) (td + 3 * of_nat k) 1500 2600 srx stx (n + k)
              (if k = 0 then y else Some (x + k)))"
proof (induction k arbitrary: x td n y)
  case 0
  then show ?case by simp
next
  case (Suc k)
  from Suc.prems have t: "tick default_config [''eth0''] (late_env (Suc x))
           (ex_window (3 * of_nat x) td 1500 2600 srx stx n (Some (Suc x)))
       = Inr (ex_window (3 * of_nat (Suc x)) (td + 3) 1500 2600 srx stx (Suc n) (Some (Suc x)))"
    by (rule tick_late)
  have s: "td + 3 + 3 * of_nat k = td + 3 * of_nat (Suc k)" by simp
  show ?case
    by (simp add: t Suc.IH [of "Suc x"] s del: of_nat_Suc)
qed

lemma run_ticks_late_20:
  "run_ticks default_config [''eth0''] late_env 1 20 (ex_window 0 0 1000 2000 0 0 0 None)
     = Inr (ex_window 60 60 1500 2600 166 200 20 (Some 20))"
proof -
  have e: "late_env (Suc 0) = ex_tick 3 ''59''" by (simp add: late_env_def)
  have t: "tick default_config [''eth0''] (late_env (Suc 0)) (ex_window 0 0 1000 2000 0 0 0 (Some (Suc 0)))
      = Inr (ex_window 3 3 1500 2600 166 200 (Suc 0) (Some (Suc 0)))"
    unfolding e by (subst tick_ex_window) (simp_all add: py_trunc_ex)
  have r: "run_ticks default_config [''eth0''] late_env (Suc (Suc 0)) 19
       (ex_window (3 * of_nat (Suc 0)) 3 1500 2600 166 200 (Suc 0) (Some (Suc 0)))
     = Inr (ex_window (3 * of_nat (Suc 0 + 19)) (3 + 3 * of_nat 19) 1500 2600 166 200 (Suc 0 + 19)
              (if (19::nat) = 0 then Some (Suc 0) else Some (Suc 0 + 19)))"
    by (rule run_ticks_late) simp
  have r': "run_ticks default_config [''eth0''] late_env (Suc (Suc 0)) 19
       (ex_window 3 3 1500 2600 166 200 (Suc 0) (Some (Suc 0)))
     = Inr (ex_window 60 60 1500 2600 166 200 20 (Some 20))"
    using r by simp
  have "run_ticks default_config [''eth0''] late_env 1 (Suc 19) (ex_window 0 0 1000 2000 0 0 0 None)
     = Inr (ex_window 60 60 1500 2600 166 200 20 (Some 20))"
    by (simp only: run_ticks.simps One_nat_def ex_window_X t pbind.simps r')
  then show ?thesis by simp
qed

text \<open>
  Claim C2 on a run that crosses the hour. The run starts in minute 59, so \<open>M\<close> is 59;
  the minute is 00 when the fifth tick ends, and line 278 compares \<open>0 > 59\<close>: the change of
  minute is not seen, on that tick or on any later one, and the loop runs its 20 ticks
  (\<open>X\<close> is 20 at the end of the window) where the claim has 5.
\<close>

theorem hour_rollover_runs_all_ticks:
  "run_times default_config = Inr 20
   \<and> minute_now (minute0 late_ie) = Inr 59
   \<and> minute_now (minute (late_env 4)) = Inr 59
   \<and> minute_now (minute (late_env 5)) = Inr 0
   \<and> sample_window default_config late_ie late_env
        = Inr (ex_window 60 60 1500 2600 166 200 20 (Some 20))
   \<and> get_X (ex_window 60 60 1500 2600 166 200 20 (Some 20)) = Inr 20"
proof -
  have "collect_loop default_config [''eth0''] 59 late_env 20 1 (ex_window 0 0 1000 2000 0 0 0 None)
      = Inr (ex_window 60 60 1500 2600 166 200 20 (Some 20))"
  proof (rule run_ticks_collect_loop [OF run_ticks_late_20])
    show "\<forall>i<20. \<exists>MM. minute_now (minute (late_env (1 + i))) = Inr MM"
      by (simp add: late_env_minute minute_now_ex)
    show "\<forall>i. Suc i < 20 \<longrightarrow> \<not> breaks 59 late_env (1 + i)"
      by (simp add: breaks_def late_env_minute minute_now_ex)
    show "(20::nat) < 20 \<longrightarrow> (0::nat) < 20 \<and> breaks 59 late_env (1 + 20 - 1)"
      by simp
  qed simp
  then have "sample_window default_config late_ie late_env
        = Inr (ex_window 60 60 1500 2600 166 200 20 (Some 20))"
    by (simp add: sample_window_def run_times_default late_ie_simps minute_now_ex)
  then show ?thesis
    by (simp add: run_times_default late_ie_simps late_env_minute minute_now_ex get_X_def
          ex_window_def)
qed

section \<open>Network rates, tick by tick\<close>

lemma nic_update_found:
  assumes "nic_update nd td nic w = Inr w'"
    and "find_line (nic @ '':'') (py_split_on newline nd) = Some line"
  shows "\<exists>cur_rx prev_rx sum_rx cur_tx prev_tx sum_tx.
           pbind (py_index (py_split line) 1) py_int = Inr cur_rx
         \<and> a_rx w nic = Some prev_rx \<and> t_rx w nic = Some sum_rx
         \<and> pbind (py_index (py_split line) 9) py_int = Inr cur_tx
         \<and> a_tx w nic = Some prev_tx \<and> t_tx w nic = Some sum_tx \<and> td \<noteq> 0"
  using assms
  by (auto simp: nic_update_def Let_def pbind_Inr_iff py_getitem_def py_truediv_def
        split: option.splits if_splits)

lemma nics_loop_found:
  assumes "for_each (nic_update nd td) ns w = Inr w'" and "nic \<in> set ns"
    and "find_line (nic @ '':'') (py_split_on newline nd) = Some line"
  shows "\<exists>cur_rx prev_rx sum_rx cur_tx prev_tx sum_tx.
           pbind (py_index (py_split line) 1) py_int = Inr cur_rx
         \<and> a_rx w nic = Some prev_rx \<and> t_rx w nic = Some sum_rx
         \<and> pbind (py_index (py_split line) 9) py_int = Inr cur_tx
         \<and> a_tx w nic = Some prev_tx \<and> t_tx w nic = Some sum_tx \<and> td \<noteq> 0"
  using assms(1,2)
proof (induction ns arbitrary: w)
  case Nil
  then show ?case by simp
next
  case (Cons x xs)
  from Cons.prems(1) obtain w1 where 1: "nic_update nd td x w = Inr w1"
    and 2: "for_each (nic_update nd td) xs w1 = Inr w'"
    by (auto simp: pbind_Inr_iff)
  show ?case
  proof (cases "x = nic")
    case True
    with 1 assms(3) show ?thesis by (auto dest: nic_update_found)
  next
    case False
    with Cons.prems(2) have "nic \<in> set xs" by simp
    from Cons.IH [OF 2 this] nic_update_other [OF 1, of nic] False show ?thesis by simp
  qed
qed

text \<open>
  Claim C3. Take a tick that raises nothing, a monitored interface, and the line of
  \<^verbatim>\<open>/proc/net/dev\<close> the tick uses for it (the first that holds its name and a colon). Then
  columns 1 and 9 of the line are integers, the current readings; the interface has
  stored previous readings and running sums; the elapsed time, from \<open>start_time\<close> to the
  clock read of line 247, is not zero; each running sum grows by (current - previous) /
  elapsed, truncated toward zero; the current readings become the stored ones; and
  \<open>start_time\<close> becomes the clock read of line 250, so the next tick measures its elapsed
  time from this tick's read and not from the start of the window.
\<close>

theorem nic_rate_per_tick:
  assumes "tick cfg nics te w = Inr w'" and "nic \<in> set nics" and "net_dev te = Some nd"
    and "find_line (nic @ '':'') (py_split_on newline nd) = Some line"
  shows "\<exists>cur_rx prev_rx sum_rx cur_tx prev_tx sum_tx.
           pbind (py_index (py_split line) 1) py_int = Inr cur_rx
         \<and> a_rx w nic = Some prev_rx \<and> t_rx w nic = Some sum_rx
         \<and> pbind (py_index (py_split line) 9) py_int = Inr cur_tx
         \<and> a_tx w nic = Some prev_tx \<and> t_tx w nic = Some sum_tx
         \<and> end_time te - start_time w \<noteq> 0
         \<and> t_rx w' nic =
             Some (sum_rx + py_trunc (of_int (cur_rx - prev_rx) / (end_time te - start_time w)))
         \<and> t_tx w' nic =
             Some (sum_tx + py_trunc (of_int (cur_tx - prev_tx) / (end_time te - start_time w)))
         \<and> a_rx w' nic = Some cur_rx \<and> a_tx w' nic = Some cur_tx
         \<and> start_time w' = restart_time te"
proof -
  from assms(1) obtain cpu iow ram nd' w2 where
    nd': "read_file (net_dev te) = Inr nd'"
    and n: "for_each (nic_update nd' (end_time te - start_time w)) nics
              (w\<lparr> t_cpu := t_cpu w + cpu, t_iow := t_iow w + iow, t_ram := t_ram w + ram,
                  t_time_diff := t_time_diff w + (end_time te - start_time w),
                  start_time := restart_time te \<rparr>) = Inr w2"
    unfolding tick_def Let_def pbind_Inr_iff by blast
  from nd' assms(3) have [simp]: "nd' = nd" by (simp add: read_file_def)
  from nics_loop_found [OF n assms(2)] assms(4)
  obtain cur_rx prev_rx sum_rx cur_tx prev_tx sum_tx where
    f: "pbind (py_index (py_split line) 1) py_int = Inr cur_rx"
       "a_rx w nic = Some prev_rx" "t_rx w nic = Some sum_rx"
       "pbind (py_index (py_split line) 9) py_int = Inr cur_tx"
       "a_tx w nic = Some prev_tx" "t_tx w nic = Some sum_tx"
       "end_time te - start_time w \<noteq> 0"
    by auto
  from tick_nic [OF assms(1,2)] assms(3,4) f
  have "t_rx w' nic =
          Some (sum_rx + py_trunc (of_int (cur_rx - prev_rx) / (end_time te - start_time w)))"
    and "t_tx w' nic =
          Some (sum_tx + py_trunc (of_int (cur_tx - prev_tx) / (end_time te - start_time w)))"
    and "a_rx w' nic = Some cur_rx" and "a_tx w' nic = Some cur_tx"
    by (auto simp: rx_rate_def tx_rate_def counter_rate_def counter_next_def)
  moreover from tick_scalars [OF assms(1)] have "start_time w' = restart_time te" by auto
  ultimately show ?thesis using f by blast
qed

text \<open>
  The counter of the interface read as 1000, 1500, 1500 at the times 0, 3, 6: the two
  rates are 166 and 0, and the average over the two ticks is 83.
\<close>

theorem nic_rate_per_tick_witness:
  "tick default_config [''eth0''] (ex_env 1) (ex_window 0 0 1000 2000 0 0 0 (Some 1))
     = Inr (ex_window 3 3 1500 2600 166 200 1 (Some 1))
   \<and> t_rx (ex_window 3 3 1500 2600 166 200 1 (Some 1)) ''eth0''
       = Some (0 + py_trunc (of_int (1500 - 1000) / (3 - 0)))
   \<and> py_trunc (of_int (1500 - 1000) / (3 - 0)) = 166
   \<and> tick default_config [''eth0''] (ex_env 2) (ex_window 3 3 1500 2600 166 200 1 (Some 2))
     = Inr (ex_window 6 6 1500 2600 166 200 2 (Some 2))
   \<and> t_rx (ex_window 6 6 1500 2600 166 200 2 (Some 2)) ''eth0''
       = Some (166 + py_trunc (of_int (1500 - 1500) / (6 - 3)))
   \<and> py_trunc (of_int (1500 - 1500) / (6 - 3)) = 0
   \<and> nic_avg (ex_window 6 6 1500 2600 166 200 2 (Some 2)) ''eth0'' = Inr (''eth0'', 83, 100)"
proof -
  let ?w0 = "ex_window 0 0 1000 2000 0 0 0 (Some 1)"
  let ?w1 = "ex_window 3 3 1500 2600 166 200 1 (Some 1)"
  let ?w1' = "ex_window 3 3 1500 2600 166 200 1 (Some 2)"
  let ?w2 = "ex_window 6 6 1500 2600 166 200 2 (Some 2)"
  let ?line = "''  eth0: 1500 10 0 0 0 0 0 0 2600 20 0 0 0 0 0 0''"
  have t1: "tick default_config [''eth0''] (ex_env 1) ?w0 = Inr ?w1"
    by (simp add: ex_env_def tick_ex_window py_trunc_ex)
  have t2: "tick default_config [''eth0''] (ex_env 2) ?w1' = Inr ?w2"
    by (simp add: ex_env_def tick_ex_window numeral_2_eq_2)
  have nd: "net_dev (ex_env 1) = Some ex_net_dev1" "net_dev (ex_env 2) = Some ex_net_dev1"
    by (simp_all add: ex_env_def ex_tick_simps)
  have line: "find_line (''eth0'' @ '':'') (py_split_on newline ex_net_dev1) = Some ?line"
    by (simp add: find_line_ex_net_dev1_eth0)
  have cur: "pbind (py_index (py_split ?line) 1) py_int = Inr 1500"
    by (simp add: py_split_ex_net_dev1_eth0 py_index_def py_int_examples)
  have times: "end_time (ex_env 1) = 3" "end_time (ex_env 2) = 6"
    by (simp_all add: ex_env_def ex_tick_simps)
  have w: "a_rx ?w0 ''eth0'' = Some 1000" "t_rx ?w0 ''eth0'' = Some 0" "start_time ?w0 = 0"
    "a_rx ?w1' ''eth0'' = Some 1500" "t_rx ?w1' ''eth0'' = Some 166" "start_time ?w1' = 3"
    by (simp_all add: ex_window_def)
  from nic_rate_per_tick [OF t1 _ nd(1) line] cur w times
  have r1: "t_rx ?w1 ''eth0'' = Some (0 + py_trunc (of_int (1500 - 1000) / (3 - 0)))"
    by auto
  from nic_rate_per_tick [OF t2 _ nd(2) line] cur w times
  have r2: "t_rx ?w2 ''eth0'' = Some (166 + py_trunc (of_int (1500 - 1500) / (6 - 3)))"
    by auto
  have avg: "nic_avg ?w2 ''eth0'' = Inr (''eth0'', 83, 100)"
    by (simp add: nic_avg_def get_X_def ex_window_def py_getitem_def py_truediv_def py_trunc_def)
  have v: "py_trunc (of_int (1500 - 1000) / (3 - 0)) = 166"
    "py_trunc (of_int (1500 - 1500) / (6 - 3)) = 0"
    by (simp_all add: py_trunc_ex)
  from t1 t2 r1 r2 avg v show ?thesis by blast
qed

section \<open>Disk rates and network rates\<close>

text \<open>
  Claim C4. Whenever the script gets as far as its report, with \<open>N\<close> ticks run: for each
  entry of \<open>v_disks\<close> whose device has a line in \<^verbatim>\<open>/proc/diskstats\<close> after the window, the
  two reported values are one difference each over the whole window: the reading after
  the window minus the reading taken before the first tick, times 512, divided by \<open>T\<close>
  and truncated, where \<open>T\<close> is the sum of the elapsed times the \<open>N\<close> ticks measured
  (\<^verbatim>\<open>t_time_diff\<close>). Each interface's two values are, differently, the sum of its
  \<open>N\<close> per-tick rates divided by \<open>N\<close> and truncated.
\<close>

theorem iops_whole_window_nics_per_tick:
  assumes "agent cfg ie env fe = Inr r"
  shows "\<exists>w0 N ds0 ds1 T.
           open_window cfg ie = Inr w0 \<and> ticks r = N \<and> 1 \<le> N
         \<and> diskstats0 ie = Some ds0 \<and> diskstats1 fe = Some ds1
         \<and> T = (\<Sum>j = 1..N. tick_elapsed (env j)
                   (window_before cfg (network_interfaces_array cfg ie) env w0 j))
         \<and> r_iops r =
             concat (map (\<lambda>md.
                 case find_line (snd md) (py_split_on newline ds1) of
                   None \<Rightarrow> []
                 | Some line \<Rightarrow>
                     [(fst md, whole_window_rate ds0 ds1 (snd md) 5 T,
                       whole_window_rate ds0 ds1 (snd md) 9 T)])
               v_disks)
         \<and> r_nics r =
             map (\<lambda>nic.
                   (nic,
                    py_trunc (of_int (\<Sum>j = 1..N. rx_rate (env j)
                        (window_before cfg (network_interfaces_array cfg ie) env w0 j) nic)
                      / of_nat N),
                    py_trunc (of_int (\<Sum>j = 1..N. tx_rate (env j)
                        (window_before cfg (network_interfaces_array cfg ie) env w0 j) nic)
                      / of_nat N)))
               (network_interfaces_array cfg ie)"
proof -
  let ?nics = "network_interfaces_array cfg ie"
  from agent_run [OF assms] obtain w0 w N where
    w0: "open_window cfg ie = Inr w0"
    and run: "run_ticks cfg ?nics env 1 N w0 = Inr w"
    and as: "assemble cfg ?nics fe w = Inr r"
    and N: "1 \<le> N" "X w = Some N" "ticks r = N"
    by blast
  from N have N0: "N \<noteq> 0" by simp
  note fld = assemble_fields [OF as]
  note nics = nics_of_run [OF w0 run N(2) N0 fld(4)]
  note tot = run_ticks_totals [OF run]
  from open_window_fresh [OF w0] have "t_time_diff w0 = 0" by (simp add: fresh_def)
  with tot(4) have T: "t_time_diff w
      = (\<Sum>j = 1..N. tick_elapsed (env j) (window_before cfg ?nics env w0 j))"
    by simp
  from open_window_iops [OF w0] obtain ds0 where ds0: "diskstats0 ie = Some ds0"
    and rd: "\<forall>md \<in> set v_disks. iops_read w0 (fst md) = disk_reading ds0 (snd md) 5
                \<and> iops_write w0 (fst md) = disk_reading ds0 (snd md) 9"
    by blast
  from fld(6) obtain ds1 iops where ds1: "diskstats1 fe = Some ds1"
    and io: "map_r (iops_entry ds1 w) v_disks = Inr iops" and ri: "r_iops r = concat iops"
    by blast
  let ?E = "\<lambda>md. case find_line (snd md) (py_split_on newline ds1) of
                   None \<Rightarrow> []
                 | Some line \<Rightarrow>
                     [(fst md, whole_window_rate ds0 ds1 (snd md) 5 (t_time_diff w),
                       whole_window_rate ds0 ds1 (snd md) 9 (t_time_diff w))]"
  have "iops = map ?E v_disks"
  proof (rule list_all2_map_eq [OF map_r_Inr [OF io]])
    fix md es assume md: "md \<in> set v_disks" and es: "iops_entry ds1 w md = Inr es"
    from rd md tot(5,6) have "iops_read w (fst md) = disk_reading ds0 (snd md) 5"
      and "iops_write w (fst md) = disk_reading ds0 (snd md) 9"
      by auto
    from iops_entry_rate(1) [OF es this] show "es = ?E md" .
  qed
  with ri have "r_iops r = concat (map ?E v_disks)" by simp
  note iops = this [unfolded T]
  from w0 N ds0 ds1 nics iops show ?thesis by blast
qed

theorem iops_whole_window_nics_per_tick_witness:
  "agent default_config ex_ie ex_env ex_fe = Inr ex_report
   \<and> r_iops ex_report = [(''/'', 1024, 2048), (''/volume1'', 256, 0)]
   \<and> r_nics ex_report = [(''eth0'', 83, 100)]
   \<and> (\<exists>w0 T. open_window default_config ex_ie = Inr w0
        \<and> T = (\<Sum>j = 1..2. tick_elapsed (ex_env j)
                  (window_before default_config [''eth0''] ex_env w0 j))
        \<and> r_iops ex_report =
            concat (map (\<lambda>md.
                case find_line (snd md) (py_split_on newline ex_diskstats1) of
                  None \<Rightarrow> []
                | Some line \<Rightarrow>
                    [(fst md, whole_window_rate ex_diskstats0 ex_diskstats1 (snd md) 5 T,
                      whole_window_rate ex_diskstats0 ex_diskstats1 (snd md) 9 T)])
              v_disks))"
proof -
  have t: "ticks ex_report = 2" by (simp add: ex_report_def)
  from iops_whole_window_nics_per_tick [OF agent_ex] t
  have "\<exists>w0 T. open_window default_config ex_ie = Inr w0
        \<and> T = (\<Sum>j = 1..2. tick_elapsed (ex_env j)
                  (window_before default_config [''eth0''] ex_env w0 j))
        \<and> r_iops ex_report =
            concat (map (\<lambda>md.
                case find_line (snd md) (py_split_on newline ex_diskstats1) of
                  None \<Rightarrow> []
                | Some line \<Rightarrow>
                    [(fst md, whole_window_rate ex_diskstats0 ex_diskstats1 (snd md) 5 T,
                      whole_window_rate ex_diskstats0 ex_diskstats1 (snd md) 9 T)])
              v_disks)"
    by (auto simp: ex_ie_simps ex_fe_simps nics_ex)
  with agent_ex show ?thesis
    by (simp add: ex_report_def)
qed

section \<open>A tick that cannot read its metrics\<close>







section \<open>The characters of the encoded fields\<close>

lemma py_replace_removes:
  "c \<notin> set r \<Longrightarrow> c \<notin> set (py_replace c r s)"
  by (induction s) (auto simp: py_replace_def)

lemma py_replace_keeps_out:
  "c \<notin> set r \<Longrightarrow> c \<notin> set s \<Longrightarrow> c \<notin> set (py_replace d r s)"
  by (induction s) (auto simp: py_replace_def)

lemma base64_prep_escapes:
  "CHR ''+'' \<notin> set (base64_prep s)" "CHR ''/'' \<notin> set (base64_prep s)"
proof -
  show "CHR ''+'' \<notin> set (base64_prep s)"
    unfolding base64_prep_def
    by (rule py_replace_keeps_out) (simp_all add: py_replace_removes)
  show "CHR ''/'' \<notin> set (base64_prep s)"
    unfolding base64_prep_def by (rule py_replace_removes) simp
qed

lemma py_str_0: "py_str 0 = ''0''"
  by (simp add: py_str_def char_of_def bit_0)

text \<open>
  Claim C6 on the field of line 321. The fields that go through \<^verbatim>\<open>base64_prep\<close>, the
  gzip ones of \<^verbatim>\<open>compress_and_encode\<close> and \<^verbatim>\<open>conn_data\<close> of line 392, hold no \<^verbatim>\<open>+\<close> and
  no \<^verbatim>\<open>/\<close>. \<^verbatim>\<open>os_encoded\<close> is the base64 text as \<^verbatim>\<open>b64encode\<close> returns it: for the
  release \<^verbatim>\<open>Ubuntu 22.04.3 LTS\<close> and the kernel \<^verbatim>\<open>6.2.0-1~custom\<close>, whose \<^verbatim>\<open>~\<close> is the
  third byte of a group of three, it holds a raw \<^verbatim>\<open>+\<close>.
\<close>

theorem os_encoded_raw_plus:
  "os_encoded ''Ubuntu 22.04.3 LTS'' ''6.2.0-1~custom'' 0
     = ''VWJ1bnR1IDIyLjA0LjMgTFRTfDYuMi4wLTF+Y3VzdG9tfDA=''
   \<and> CHR ''+'' \<in> set (os_encoded ''Ubuntu 22.04.3 LTS'' ''6.2.0-1~custom'' 0)
   \<and> CHR ''+'' \<notin> set (conn_data cs) \<and> CHR ''/'' \<notin> set (conn_data cs)
   \<and> CHR ''+'' \<notin> set (compress_and_encode gz data)
   \<and> CHR ''/'' \<notin> set (compress_and_encode gz data)"
proof -
  have e: "os_encoded ''Ubuntu 22.04.3 LTS'' ''6.2.0-1~custom'' 0
     = ''VWJ1bnR1IDIyLjA0LjMgTFRTfDYuMi4wLTF+Y3VzdG9tfDA=''"
    by (simp add: os_encoded_def py_str_0 b64_char_def b64_alphabet_def)
  have "CHR ''+'' \<in> set (os_encoded ''Ubuntu 22.04.3 LTS'' ''6.2.0-1~custom'' 0)"
    unfolding e by simp
  with e show ?thesis
    by (simp add: conn_data_def compress_and_encode_def base64_prep_escapes)
qed

section \<open>Port connections\<close>




section \<open>Swap usage\<close>

text \<open>
  Claim C8. \<^verbatim>\<open>swap_size\<close> and \<^verbatim>\<open>swap_free\<close> are the texts the two pipelines of lines 359
  and 362 printed. When the swap size reads as 0 the swap usage is 0 and nothing is
  raised, whatever the other text is (it is not even parsed); when it reads as
  \<open>n > 0\<close> and the free swap reads as \<open>f\<close>, the usage is \<open>100 - (f / n) * 100\<close>.
\<close>

theorem swap_usage_rule:
  "(py_int swap_size = Inr 0 \<longrightarrow> swap_usage swap_size swap_free = Inr 0) \<and>
   (\<forall>n f. py_int swap_size = Inr n \<and> 0 < n \<and> py_int swap_free = Inr f \<longrightarrow>
      swap_usage swap_size swap_free = Inr (100 - (of_int f / of_int n) * 100))"
  by (auto simp: swap_usage_def py_truediv_def)

theorem swap_usage_rule_witness:
  "swap_usage ''0'' [] = Inr 0 \<and> swap_usage ''2097148'' ''1048574'' = Inr 50"
proof -
  have size: "py_int ''2097148'' = Inr 2097148" and free: "py_int ''1048574'' = Inr 1048574"
    by (simp_all add: py_int_eval)
  from swap_usage_rule [of "''0''" "[]"] py_int_0
  have "swap_usage ''0'' [] = Inr 0" by simp
  moreover from swap_usage_rule [of "''2097148''" "''1048574''"] size free
  have "swap_usage ''2097148'' ''1048574'' = Inr 50" by simp
  ultimately show ?thesis by simp
qed

section \<open>Service status\<close>

text \<open>
  Claim C9. \<open>run_command (ps_out se)\<close> is the count the \<^verbatim>\<open>ps\<close> pipeline printed. When it
  is a positive number, \<^verbatim>\<open>service_status\<close> answers status 1 and the only call it made is
  that pipeline: no \<^verbatim>\<open>systemctl is-active\<close>. When the output is empty or a number that
  is not positive: if one of the two \<^verbatim>\<open>systemctl\<close> paths exists, \<^verbatim>\<open>systemctl is-active\<close>
  is called and its exit status decides (0 gives status 1, anything else status 0); if
  neither path exists the status is 0 and \<^verbatim>\<open>systemctl\<close> is not called.
\<close>

theorem service_status_decides:
  "(\<forall>n. run_command (ps_out se) \<noteq> [] \<and> py_int (run_command (ps_out se)) = Inr n \<and> 0 < n \<longrightarrow>
      service_status se name = (Inr (b64encode name @ '',1''), [PsGrep name]))
   \<and> ((run_command (ps_out se) = [] \<or> (\<exists>n. py_int (run_command (ps_out se)) = Inr n \<and> n \<le> 0)) \<longrightarrow>
        ((usr_bin_systemctl se \<or> bin_systemctl se) \<longrightarrow>
           (\<forall>rc. systemctl_run se = Inr rc \<longrightarrow>
              fst (service_status se name)
                = Inr (b64encode name @ (if rc = 0 then '',1'' else '',0''))
              \<and> SystemctlIsActive name \<in> set (snd (service_status se name))))
        \<and> (\<not> usr_bin_systemctl se \<and> \<not> bin_systemctl se \<longrightarrow>
              fst (service_status se name) = Inr (b64encode name @ '',0'')
              \<and> SystemctlIsActive name \<notin> set (snd (service_status se name))))"
  by (auto simp: service_status_def Let_def)

theorem service_status_decides_witness:
  "service_status se_running ''ssh'' = (Inr ''c3No,1'', [PsGrep ''ssh''])
   \<and> fst (service_status se_systemd ''ssh'') = Inr ''c3No,1''
   \<and> SystemctlIsActive ''ssh'' \<in> set (snd (service_status se_systemd ''ssh''))
   \<and> fst (service_status se_plain ''ssh'') = Inr ''c3No,0''
   \<and> SystemctlIsActive ''ssh'' \<notin> set (snd (service_status se_plain ''ssh''))"
proof -
  have r: "run_command (ps_out se_running) = ''2''"
    by (simp add: se_running_def run_command_2)
  have s: "run_command (ps_out se_systemd) = ''0''"
    by (simp add: se_systemd_def run_command_0)
  have p: "run_command (ps_out se_plain) = ''0''"
    by (simp add: se_plain_def run_command_0)
  from service_status_decides [of se_running "''ssh''"] r py_int_2
  have 1: "service_status se_running ''ssh'' = (Inr ''c3No,1'', [PsGrep ''ssh''])"
    by (simp add: b64_char_def b64_alphabet_def)
  have "bin_systemctl se_systemd" and "systemctl_run se_systemd = Inr 0"
    by (simp_all add: se_systemd_def)
  with service_status_decides [of se_systemd "''ssh''"] s py_int_0
  have 2: "fst (service_status se_systemd ''ssh'') = Inr ''c3No,1''
      \<and> SystemctlIsActive ''ssh'' \<in> set (snd (service_status se_systemd ''ssh''))"
    by (simp add: b64_char_def b64_alphabet_def)
  have "\<not> usr_bin_systemctl se_plain" and "\<not> bin_systemctl se_plain"
    by (simp_all add: se_plain_def)
  with service_status_decides [of se_plain "''ssh''"] p py_int_0
  have 3: "fst (service_status se_plain ''ssh'') = Inr ''c3No,0''
      \<and> SystemctlIsActive ''ssh'' \<notin> set (snd (service_status se_plain ''ssh''))"
    by (simp add: b64_char_def b64_alphabet_def)
  from 1 2 3 show ?thesis by simp
qed

end
